theory Spec2Isabelle
  imports Complex_Main "HOL-Library.Multiset"
begin

section \<open>Data model\<close>

text \<open>
  The program is a Python script over pandas data frames and NumPy arrays in which every
  value has been cast to float (\<^verbatim>\<open>data.astype(float)\<close>).  A data-frame row is a
  function from column labels to values; the list of column labels
  (\<^verbatim>\<open>X_col_names\<close>) is carried beside the rows.  A NumPy array is a list of rows,
  each a list of values in column order.  Floats are modelled as reals and class labels
  (the values 0.0 and 1.0 of the column \<^verbatim>\<open>stroke\<close>) as integers.  Every exception
  the script can raise is a value of type \<open>error\<close>, named after the Python exception
  class.
\<close>

type_synonym row = "string \<Rightarrow> real"

type_synonym ndarray = "real list list"

datatype error = ValueError | KeyError | IndexError

section \<open>NumPy primitives used by the script\<close>

text \<open>
  \<^verbatim>\<open>np.argmax\<close> scans left to right and replaces the running maximum only by a
  strictly greater value, so that the first of several equal maxima wins; on an empty
  sequence it raises \<^verbatim>\<open>ValueError\<close>.
\<close>

fun argmax_loop :: "real list \<Rightarrow> nat \<Rightarrow> real \<Rightarrow> nat \<Rightarrow> nat" where
  "argmax_loop [] i mp idx = idx"
| "argmax_loop (v # vs) i mp idx =
     (if mp < v then argmax_loop vs (Suc i) v i else argmax_loop vs (Suc i) mp idx)"

definition np_argmax :: "real list \<Rightarrow> error + nat" where
  "np_argmax x = (case x of [] \<Rightarrow> Inl ValueError | v # vs \<Rightarrow> Inr (argmax_loop vs 1 v 0))"

text \<open>\<^verbatim>\<open>round(0)\<close> rounds to the nearest integer, halves to the even neighbour.\<close>

definition round_half_even :: "real \<Rightarrow> real" where
  "round_half_even x =
     (let f = \<lfloor>x\<rfloor>; d = x - of_int f in
      if d < 1 / 2 then of_int f
      else if 1 / 2 < d then of_int (f + 1)
      else if even f then of_int f else of_int (f + 1))"

definition np_clip :: "real \<Rightarrow> real \<Rightarrow> real \<Rightarrow> real" where
  "np_clip x lo hi = min (max x lo) hi"

section \<open>make_one_hot and the repair of the synthetic frame (lines 91-107, 140-181)\<close>

text \<open>
  \<^verbatim>\<open>make_one_hot(x)\<close>: \<^verbatim>\<open>highest = np.argmax(x); x *= 0.0; x[highest] = 1.0\<close>.
\<close>

definition make_one_hot :: "real list \<Rightarrow> error + real list" where
  "make_one_hot x =
     (case np_argmax x of
        Inl e \<Rightarrow> Inl e
      | Inr highest \<Rightarrow> Inr ((map (\<lambda>v. v * 0) x)[highest := 1]))"

definition categorical :: "string list" where
  "categorical = [''gender_'', ''work_type_'', ''residence_type_'', ''smoking_status_'']"

definition one_hot_cols :: "string list \<Rightarrow> string list list" where
  "one_hot_cols X_col_names =
     map (\<lambda>col. filter (\<lambda>x. take (length col) x = col) X_col_names) categorical"

definition integer_cols :: "string list" where
  "integer_cols = [''age'', ''bmi'']"

definition binary_cols :: "string list" where
  "binary_cols = [''hypertension'', ''heart_disease'', ''ever_married'']"

text \<open>
  \<^verbatim>\<open>row[x_one_hot.index] = x_one_hot.values\<close>: the values are written back under the
  labels they were read from.  The row handed out by \<^verbatim>\<open>iterrows\<close> is modelled as
  writing through to the frame, which is what pandas does for a frame of a single float
  dtype without copy-on-write, the setting in which the script repairs anything at all.
\<close>

fun set_cols :: "string list \<Rightarrow> real list \<Rightarrow> row \<Rightarrow> row" where
  "set_cols (c # cs) (v # vs) r = set_cols cs vs (r(c := v))"
| "set_cols cs vs r = r"

definition one_hot_row :: "string list \<Rightarrow> row \<Rightarrow> error + row" where
  "one_hot_row one_hot_list r =
     (case make_one_hot (map r one_hot_list) of
        Inl e \<Rightarrow> Inl e
      | Inr x_one_hot \<Rightarrow> Inr (set_cols one_hot_list x_one_hot r))"

fun one_hot_rows :: "string list \<Rightarrow> row list \<Rightarrow> error + row list" where
  "one_hot_rows one_hot_list [] = Inr []"
| "one_hot_rows one_hot_list (r # rs) =
     (case one_hot_row one_hot_list r of
        Inl e \<Rightarrow> Inl e
      | Inr r' \<Rightarrow>
          (case one_hot_rows one_hot_list rs of
             Inl e \<Rightarrow> Inl e
           | Inr rs' \<Rightarrow> Inr (r' # rs')))"

fun one_hot_groups :: "string list list \<Rightarrow> row list \<Rightarrow> error + row list" where
  "one_hot_groups [] df = Inr df"
| "one_hot_groups (one_hot_list # rest) df =
     (case one_hot_rows one_hot_list df of
        Inl e \<Rightarrow> Inl e
      | Inr df' \<Rightarrow> one_hot_groups rest df')"

text \<open>
  \<^verbatim>\<open>synth_df[col] = synth_df[col].round(0)\<close> and
  \<^verbatim>\<open>synth_df[col] = np.clip(synth_df[col],0,1).round(0)\<close>; reading a column the frame
  does not have raises \<^verbatim>\<open>KeyError\<close>.
\<close>

fun round_integer_cols :: "string list \<Rightarrow> string list \<Rightarrow> row list \<Rightarrow> error + row list" where
  "round_integer_cols X_col_names [] df = Inr df"
| "round_integer_cols X_col_names (col # cols) df =
     (if col \<notin> set X_col_names then Inl KeyError
      else round_integer_cols X_col_names cols
             (map (\<lambda>r. r(col := round_half_even (r col))) df))"

fun clip_binary_cols :: "string list \<Rightarrow> string list \<Rightarrow> row list \<Rightarrow> error + row list" where
  "clip_binary_cols X_col_names [] df = Inr df"
| "clip_binary_cols X_col_names (col # cols) df =
     (if col \<notin> set X_col_names then Inl KeyError
      else clip_binary_cols X_col_names cols
             (map (\<lambda>r. r(col := round_half_even (np_clip (r col) 0 1))) df))"

definition repair :: "string list \<Rightarrow> row list \<Rightarrow> error + row list" where
  "repair X_col_names synth_df =
     (case one_hot_groups (one_hot_cols X_col_names) synth_df of
        Inl e \<Rightarrow> Inl e
      | Inr df1 \<Rightarrow>
          (case round_integer_cols X_col_names integer_cols df1 of
             Inl e \<Rightarrow> Inl e
           | Inr df2 \<Rightarrow> clip_binary_cols X_col_names binary_cols df2))"

section \<open>standardise_data (lines 20-32)\<close>

text \<open>
  \<^verbatim>\<open>StandardScaler\<close> keeps, per column, the mean and the population standard
  deviation of the data it is fitted on; a standard deviation of zero is replaced by 1.
  Fitting or transforming a frame with no rows or no columns raises \<^verbatim>\<open>ValueError\<close>.
  The transformed data is a NumPy array.
\<close>

definition np_mean :: "real list \<Rightarrow> real" where
  "np_mean xs = sum_list xs / real (length xs)"

definition np_var :: "real list \<Rightarrow> real" where
  "np_var xs = np_mean (map (\<lambda>x. (x - np_mean xs)\<^sup>2) xs)"

record scaler =
  sc_mean :: "real list"
  sc_scale :: "real list"

definition handle_zeros_in_scale :: "real \<Rightarrow> real" where
  "handle_zeros_in_scale s = (if s = 0 then 1 else s)"

definition StandardScaler_fit :: "string list \<Rightarrow> row list \<Rightarrow> error + scaler" where
  "StandardScaler_fit cols X =
     (if X = [] \<or> cols = [] then Inl ValueError
      else Inr \<lparr>sc_mean = map (\<lambda>c. np_mean (map (\<lambda>r. r c) X)) cols,
                sc_scale = map (\<lambda>c. handle_zeros_in_scale (sqrt (np_var (map (\<lambda>r. r c) X)))) cols\<rparr>)"

definition StandardScaler_transform :: "scaler \<Rightarrow> string list \<Rightarrow> row list \<Rightarrow> error + ndarray" where
  "StandardScaler_transform sc cols X =
     (if X = [] \<or> cols = [] then Inl ValueError
      else Inr (map (\<lambda>r. map (\<lambda>(c, m, s). (r c - m) / s) (zip cols (zip (sc_mean sc) (sc_scale sc)))) X))"

definition standardise_data :: "string list \<Rightarrow> row list \<Rightarrow> row list \<Rightarrow> error + (ndarray \<times> ndarray)" where
  "standardise_data cols X_train X_test =
     (case StandardScaler_fit cols X_train of
        Inl e \<Rightarrow> Inl e
      | Inr sc \<Rightarrow>
          (case StandardScaler_transform sc cols X_train of
             Inl e \<Rightarrow> Inl e
           | Inr train_std \<Rightarrow>
               (case StandardScaler_transform sc cols X_test of
                  Inl e \<Rightarrow> Inl e
                | Inr test_std \<Rightarrow> Inr (train_std, test_std))))"

section \<open>make_synthetic_data_smote (lines 34-89)\<close>

text \<open>
  The function calls \<^verbatim>\<open>SMOTE(sampling_strategy = {0: n_class_0, 1: n_class_1})\<close> of
  imbalanced-learn with its default \<^verbatim>\<open>k_neighbors = 5\<close>.  \<^verbatim>\<open>fit_resample\<close>
  \<^item> raises \<^verbatim>\<open>ValueError\<close> when \<^verbatim>\<open>X\<close> and \<^verbatim>\<open>y\<close> differ in length or are empty,
    when a class of the strategy does not occur in \<^verbatim>\<open>y\<close>, when a requested total is
    negative or below the number of members the class already has;
  \<^item> visits the classes in ascending order and skips a class that needs no new sample;
  \<^item> for any other class searches, for every member, its \<^verbatim>\<open>k_neighbors + 1\<close> nearest
    members of the class (the member itself first), which raises \<^verbatim>\<open>ValueError\<close> when
    the class has fewer than \<^verbatim>\<open>k_neighbors + 1\<close> members;
  \<^item> builds each new sample from a drawn index into the member-by-neighbour table and a
    drawn step as \<^verbatim>\<open>base + step * (neighbour - base)\<close>, labelled with the class;
  \<^item> returns the original rows followed by the new samples, class by class.

  The random draws are a parameter: \<open>draws c j\<close> is the pair (index, step) drawn for the
  \<open>j\<close>-th new sample of class \<open>c\<close>; the index is reduced modulo the size of the table.
\<close>

definition row_of :: "string list \<Rightarrow> real list \<Rightarrow> row" where
  "row_of cols vs = (\<lambda>c. case map_of (zip cols vs) c of Some v \<Rightarrow> v | None \<Rightarrow> 0)"

definition euclidean :: "real list \<Rightarrow> real list \<Rightarrow> real" where
  "euclidean a b = sqrt (sum_list (map (\<lambda>(x, y). (x - y)\<^sup>2) (zip a b)))"

definition k_neighbors :: nat where
  "k_neighbors = 5"

definition kneighbors :: "nat \<Rightarrow> ndarray \<Rightarrow> real list \<Rightarrow> nat list" where
  "kneighbors n fit_X q = take n (sort_key (\<lambda>j. euclidean (fit_X ! j) q) [0..<length fit_X])"

definition check_sampling_strategy :: "(int \<times> int) list \<Rightarrow> int list \<Rightarrow> error + (int \<times> nat) list" where
  "check_sampling_strategy sampling_strategy y =
     (if \<exists>(c, n)\<in>set sampling_strategy. c \<notin> set y then Inl ValueError
      else if \<exists>(c, n)\<in>set sampling_strategy. n < 0 then Inl ValueError
      else if \<exists>(c, n)\<in>set sampling_strategy. n < int (count_list y c) then Inl ValueError
      else Inr (map (\<lambda>(c, n). (c, nat (n - int (count_list y c)))) (sort_key fst sampling_strategy)))"

definition make_samples :: "(nat \<Rightarrow> nat \<times> real) \<Rightarrow> ndarray \<Rightarrow> nat list list \<Rightarrow> nat \<Rightarrow> ndarray" where
  "make_samples draw X_class nns n_samples =
     map (\<lambda>j. let (samples_index, step) = draw j;
                  i = samples_index mod (length X_class * k_neighbors);
                  row = i div k_neighbors;
                  col = i mod k_neighbors;
                  base = X_class ! row;
                  nbr = X_class ! (nns ! row ! col)
              in map (\<lambda>(b, n). b + step * (n - b)) (zip base nbr))
         [0..<n_samples]"

fun smote_classes ::
  "(int \<Rightarrow> nat \<Rightarrow> nat \<times> real) \<Rightarrow> ndarray \<Rightarrow> int list \<Rightarrow> (int \<times> nat) list \<Rightarrow> error + (ndarray \<times> int list)" where
  "smote_classes draws X y [] = Inr ([], [])"
| "smote_classes draws X y ((class_sample, n_samples) # rest) =
     (if n_samples = 0 then smote_classes draws X y rest
      else
        let X_class = map fst (filter (\<lambda>(x, l). l = class_sample) (zip X y)) in
        if length X_class < k_neighbors + 1 then Inl ValueError
        else
          let nns = map (\<lambda>x. tl (kneighbors (k_neighbors + 1) X_class x)) X_class;
              X_new = make_samples (draws class_sample) X_class nns n_samples;
              y_new = replicate n_samples class_sample
          in (case smote_classes draws X y rest of
                Inl e \<Rightarrow> Inl e
              | Inr (X_rest, y_rest) \<Rightarrow> Inr (X_new @ X_rest, y_new @ y_rest)))"

definition SMOTE_fit_resample ::
  "(int \<Rightarrow> nat \<Rightarrow> nat \<times> real) \<Rightarrow> string list \<Rightarrow> (int \<times> int) list \<Rightarrow> row list \<Rightarrow> int list \<Rightarrow>
     error + (row list \<times> int list)" where
  "SMOTE_fit_resample draws cols sampling_strategy X y =
     (if length X \<noteq> length y \<or> X = [] then Inl ValueError
      else
        (case check_sampling_strategy sampling_strategy y of
           Inl e \<Rightarrow> Inl e
         | Inr strategy \<Rightarrow>
             (case smote_classes draws (map (\<lambda>r. map r cols) X) y strategy of
                Inl e \<Rightarrow> Inl e
              | Inr (X_new, y_new) \<Rightarrow> Inr (X @ map (row_of cols) X_new, y @ y_new))))"

text \<open>
  \<^verbatim>\<open>number_of_samples\<close> is a list read at positions 0 and 1 (\<^verbatim>\<open>IndexError\<close> when it
  is shorter); \<^verbatim>\<open>np.sum(y==0)\<close> counts the labels equal to 0.
\<close>

definition make_synthetic_data_smote ::
  "(int \<Rightarrow> nat \<Rightarrow> nat \<times> real) \<Rightarrow> string list \<Rightarrow> row list \<Rightarrow> int list \<Rightarrow> int list \<Rightarrow>
     error + (row list \<times> int list)" where
  "make_synthetic_data_smote draws cols X y number_of_samples =
     (if length number_of_samples < 2 then Inl IndexError
      else
        let count_label_0 = int (count_list y 0);
            count_label_1 = int (count_list y 1);
            n_class_0 = number_of_samples ! 0 + count_label_0;
            n_class_1 = number_of_samples ! 1 + count_label_1
        in (case SMOTE_fit_resample draws cols [(0, n_class_0), (1, n_class_1)] X y of
              Inl e \<Rightarrow> Inl e
            | Inr (X_resampled, y_resampled) \<Rightarrow>
                Inr (drop (length X) X_resampled, drop (length y) y_resampled)))"

section \<open>Random sampling of frames\<close>

text \<open>
  \<^verbatim>\<open>DataFrame.sample(frac=1)\<close> returns the rows in a random order and
  \<^verbatim>\<open>DataFrame.sample(n)\<close> returns \<open>n\<close> rows drawn without replacement, raising
  \<^verbatim>\<open>ValueError\<close> when the frame has fewer than \<open>n\<close> rows.  The random source is a list
  of numbers: each one, reduced modulo the number of rows still to be drawn from, picks
  the next row.  Every order of the rows is the result of some such list.
\<close>

function pick_shuffle :: "nat list \<Rightarrow> 'a list \<Rightarrow> 'a list" where
  "pick_shuffle rs xs =
     (if xs = [] then []
      else
        let i = (case rs of [] \<Rightarrow> 0 | r # _ \<Rightarrow> r) mod length xs
        in xs ! i # pick_shuffle (tl rs) (take i xs @ drop (Suc i) xs))"
  by pat_completeness auto
termination
proof (relation "measure (\<lambda>(rs, xs). length xs)")
  show "wf (measure (\<lambda>(rs, xs). length xs))" by simp
next
  fix rs :: "nat list" and xs :: "'a list" and i
  assume "xs \<noteq> []" and i: "i = (case rs of [] \<Rightarrow> 0 | r # _ \<Rightarrow> r) mod length xs"
  then have "i < length xs" by simp
  then show "((tl rs, take i xs @ drop (Suc i) xs), (rs, xs)) \<in> measure (\<lambda>(rs, xs). length xs)"
    by simp
qed

declare pick_shuffle.simps [simp del]

definition sample_n :: "nat list \<Rightarrow> nat \<Rightarrow> 'a list \<Rightarrow> error + 'a list" where
  "sample_n rs n xs = (if length xs < n then Inl ValueError else Inr (take n (pick_shuffle rs xs)))"

section \<open>The synthetic frame: repair, labels, shuffle (lines 155-188)\<close>

definition build_synth_df ::
  "nat list \<Rightarrow> string list \<Rightarrow> row list \<Rightarrow> int list \<Rightarrow> error + (row \<times> int) list" where
  "build_synth_df rs X_col_names X_synthetic y_synthetic =
     (case repair X_col_names X_synthetic of
        Inl e \<Rightarrow> Inl e
      | Inr synth_df \<Rightarrow>
          if length y_synthetic \<noteq> length synth_df then Inl ValueError
          else Inr (pick_shuffle rs (zip synth_df y_synthetic)))"

section \<open>Distance to the closest real point (lines 190-224)\<close>

text \<open>
  \<^verbatim>\<open>NearestNeighbors(n_neighbors=1).fit(X_real_std).kneighbors(X_synth_std)\<close> gives,
  for every row of \<^verbatim>\<open>X_synth_std\<close>, the Euclidean distance to the nearest row of
  \<^verbatim>\<open>X_real_std\<close> and the position of that row.  The two lists are then stored as new
  columns of \<^verbatim>\<open>synth_df\<close>; a list assigned to a column is stored by position.
\<close>

record synth_row =
  features :: row
  stroke :: int
  distance_to_closest_real :: real
  closest_X_real_row_index :: nat

definition closest :: "ndarray \<Rightarrow> real list \<Rightarrow> real \<times> nat" where
  "closest X_real_std q =
     (let ds = map (\<lambda>p. euclidean p q) X_real_std;
          d = min_list ds
      in (d, length (takeWhile (\<lambda>x. x \<noteq> d) ds)))"

definition NearestNeighbors_kneighbors :: "ndarray \<Rightarrow> ndarray \<Rightarrow> error + (real \<times> nat) list" where
  "NearestNeighbors_kneighbors X_real_std X_synth_std =
     (if X_real_std = [] \<or> X_synth_std = [] then Inl ValueError
      else Inr (map (closest X_real_std) X_synth_std))"

definition store_distances :: "(row \<times> int) list \<Rightarrow> (real \<times> nat) list \<Rightarrow> error + synth_row list" where
  "store_distances synth_df dists_idxs =
     (if length dists_idxs \<noteq> length synth_df then Inl ValueError
      else Inr (map (\<lambda>((r, l), (d, i)).
                  \<lparr>features = r, stroke = l, distance_to_closest_real = d,
                   closest_X_real_row_index = i\<rparr>) (zip synth_df dists_idxs)))"

text \<open>
  Lines 126 and 190-224 together: \<^verbatim>\<open>X_test_std\<close> comes from
  \<^verbatim>\<open>standardise_data(X_train, X_test)\<close>, \<^verbatim>\<open>X_train_std\<close> and \<^verbatim>\<open>X_synth_std\<close>
  from \<^verbatim>\<open>standardise_data(X_train, X_synthetic)\<close>, where \<^verbatim>\<open>X_synthetic\<close> is the
  output of \<^verbatim>\<open>make_synthetic_data_smote\<close> as it was returned, and
  \<^verbatim>\<open>synth_df\<close> is the repaired, labelled and shuffled frame.
\<close>

definition distances_to_real ::
  "string list \<Rightarrow> row list \<Rightarrow> row list \<Rightarrow> row list \<Rightarrow> (row \<times> int) list \<Rightarrow> error + synth_row list" where
  "distances_to_real X_col_names X_train X_test X_synthetic synth_df =
     (case standardise_data X_col_names X_train X_test of
        Inl e \<Rightarrow> Inl e
      | Inr (X_train_std0, X_test_std) \<Rightarrow>
          (case standardise_data X_col_names X_train X_synthetic of
             Inl e \<Rightarrow> Inl e
           | Inr (X_train_std, X_synth_std) \<Rightarrow>
               (case NearestNeighbors_kneighbors (X_train_std @ X_test_std) X_synth_std of
                  Inl e \<Rightarrow> Inl e
                | Inr dists_idxs \<Rightarrow> store_distances synth_df dists_idxs)))"

text \<open>
  The distance from a record's own features to the nearest real record, in the
  standardised space of the real training data: what lines 190-224 store for a frame
  that holds this record alone.
\<close>

definition nearest_real_distance :: "string list \<Rightarrow> row list \<Rightarrow> row list \<Rightarrow> row \<Rightarrow> error + real" where
  "nearest_real_distance X_col_names X_train X_test r =
     (case distances_to_real X_col_names X_train X_test [r] [(r, 0)] of
        Inl e \<Rightarrow> Inl e
      | Inr synth_df \<Rightarrow> Inr (distance_to_closest_real (hd synth_df)))"

section \<open>Removal of identical points and trimming (lines 226-245)\<close>

definition remove_identical :: "synth_row list \<Rightarrow> synth_row list" where
  "remove_identical synth_df = filter (\<lambda>r. \<not> distance_to_closest_real r < 1 / 1000) synth_df"

definition proportion_to_remove :: real where
  "proportion_to_remove = 1 / 10"

text \<open>
  \<^verbatim>\<open>sort_values(..., ascending=False)\<close> is modelled by a stable sort on the negated
  distance; \<^verbatim>\<open>int(len(...) * (1 - proportion_to_remove))\<close> truncates a non-negative
  product, computed here over the reals.
\<close>

definition sort_by_distance :: "synth_row list \<Rightarrow> synth_row list" where
  "sort_by_distance synth_df = sort_key (\<lambda>r. - distance_to_closest_real r) synth_df"

definition number_to_keep :: "nat \<Rightarrow> nat" where
  "number_to_keep n = nat \<lfloor>real n * (1 - proportion_to_remove)\<rfloor>"

definition limit_data :: "synth_row list \<Rightarrow> synth_row list" where
  "limit_data synth_df =
     (let synth_by_distance = sort_by_distance synth_df
      in take (number_to_keep (length synth_by_distance)) synth_by_distance)"

definition trim_and_shuffle :: "nat list \<Rightarrow> synth_row list \<Rightarrow> synth_row list" where
  "trim_and_shuffle rs synth_df = pick_shuffle rs (limit_data synth_df)"

section \<open>Sampling back to the size of the real data (lines 114-116, 247-257)\<close>

definition rebalance ::
  "nat list \<Rightarrow> nat list \<Rightarrow> nat list \<Rightarrow> nat \<Rightarrow> nat \<Rightarrow> synth_row list \<Rightarrow> error + synth_row list" where
  "rebalance rs_died rs_survived rs_shuffle number_died number_survived synth_df =
     (case sample_n rs_died number_died (filter (\<lambda>r. stroke r = 0) synth_df) of
        Inl e \<Rightarrow> Inl e
      | Inr synth_died \<Rightarrow>
          (case sample_n rs_survived number_survived (filter (\<lambda>r. stroke r = 1) synth_df) of
             Inl e \<Rightarrow> Inl e
           | Inr synth_survived \<Rightarrow> Inr (pick_shuffle rs_shuffle (synth_died @ synth_survived))))"

section \<open>The training set of the second classifier (lines 264-271)\<close>

text \<open>
  \<^verbatim>\<open>X_synth = synth_df[X_col_names]; y_synth = synth_df['stroke'].values;
  X_synth_std, X_test_std = standardise_data(X_synth, X_test);
  model_synth.fit(X_synth_std, y_synth)\<close>.  The result is what \<^verbatim>\<open>model_synth\<close> is
  fitted on, followed by the test features it predicts.
\<close>

definition synth_training_set ::
  "string list \<Rightarrow> synth_row list \<Rightarrow> row list \<Rightarrow> error + (ndarray \<times> int list \<times> ndarray)" where
  "synth_training_set X_col_names synth_df X_test =
     (let X_synth = map features synth_df;
          y_synth = map stroke synth_df
      in (case standardise_data X_col_names X_synth X_test of
            Inl e \<Rightarrow> Inl e
          | Inr (X_synth_std, X_test_std) \<Rightarrow> Inr (X_synth_std, y_synth, X_test_std)))"

section \<open>The script from the loaded data to the two training sets (lines 114-271)\<close>

text \<open>
  \<^verbatim>\<open>train_test_split(X, y, test_size = 0.20)\<close> permutes the row positions, gives the
  first \<open>\<lceil>0.2 n\<rceil>\<close> of them to the test set and the others to the training set, and
  raises \<^verbatim>\<open>ValueError\<close> when the training set would be empty.
\<close>

definition train_test_split ::
  "nat list \<Rightarrow> row list \<Rightarrow> int list \<Rightarrow> error + (row list \<times> row list \<times> int list \<times> int list)" where
  "train_test_split rs X y =
     (if length X \<noteq> length y then Inl ValueError
      else
        let n_samples = length X;
            n_test = nat \<lceil>real n_samples * (1 / 5)\<rceil>;
            n_train = n_samples - n_test
        in if n_train = 0 then Inl ValueError
           else
             let permutation = pick_shuffle rs [0..<n_samples];
                 ind_test = take n_test permutation;
                 ind_train = take n_train (drop n_test permutation)
             in Inr (map (\<lambda>i. X ! i) ind_train, map (\<lambda>i. X ! i) ind_test,
                     map (\<lambda>i. y ! i) ind_train, map (\<lambda>i. y ! i) ind_test))"

text \<open>
  \<^verbatim>\<open>unique, original_frequency = np.unique(y_train, return_counts = True);
  required_smote_count = list(original_frequency * 2)\<close>.
\<close>

definition required_smote_count :: "int list \<Rightarrow> int list" where
  "required_smote_count y_train =
     map (\<lambda>v. int (count_list y_train v) * 2) (sort (remdups y_train))"

record random_source =
  split_rs :: "nat list"
  smote_draws :: "int \<Rightarrow> nat \<Rightarrow> nat \<times> real"
  shuffle_188_rs :: "nat list"
  shuffle_245_rs :: "nat list"
  sample_249_rs :: "nat list"
  sample_253_rs :: "nat list"
  shuffle_257_rs :: "nat list"

record training_sets =
  model_X :: ndarray
  model_y :: "int list"
  model_synth_X :: ndarray
  model_synth_y :: "int list"
  final_X_test_std :: ndarray
  final_synth_df :: "synth_row list"

text \<open>
  The filtered pool: lines 137-245, from the output of
  \<^verbatim>\<open>make_synthetic_data_smote\<close> to the trimmed and shuffled \<^verbatim>\<open>synth_df\<close>.
\<close>

definition filtered_pool ::
  "nat list \<Rightarrow> nat list \<Rightarrow> string list \<Rightarrow> row list \<Rightarrow> row list \<Rightarrow> row list \<Rightarrow> int list \<Rightarrow>
     error + synth_row list" where
  "filtered_pool rs_188 rs_245 X_col_names X_train X_test X_synthetic y_synthetic =
     (case build_synth_df rs_188 X_col_names X_synthetic y_synthetic of
        Inl e \<Rightarrow> Inl e
      | Inr synth_df \<Rightarrow>
          (case distances_to_real X_col_names X_train X_test X_synthetic synth_df of
             Inl e \<Rightarrow> Inl e
           | Inr synth_df' \<Rightarrow> Inr (trim_and_shuffle rs_245 (remove_identical synth_df'))))"

definition script :: "random_source \<Rightarrow> string list \<Rightarrow> row list \<Rightarrow> int list \<Rightarrow> error + training_sets" where
  "script rnd X_col_names X y =
     (let number_died = count_list y 0;
          number_survived = count_list y 1
      in
      (case train_test_split (split_rs rnd) X y of
         Inl e \<Rightarrow> Inl e
       | Inr (X_train, X_test, y_train, y_test) \<Rightarrow>
      (case standardise_data X_col_names X_train X_test of
         Inl e \<Rightarrow> Inl e
       | Inr (X_train_std, X_test_std) \<Rightarrow>
      (case make_synthetic_data_smote (smote_draws rnd) X_col_names X_train y_train
              (required_smote_count y_train) of
         Inl e \<Rightarrow> Inl e
       | Inr (X_synthetic, y_synthetic) \<Rightarrow>
      (case filtered_pool (shuffle_188_rs rnd) (shuffle_245_rs rnd) X_col_names
              X_train X_test X_synthetic y_synthetic of
         Inl e \<Rightarrow> Inl e
       | Inr synth_df \<Rightarrow>
      (case rebalance (sample_249_rs rnd) (sample_253_rs rnd) (shuffle_257_rs rnd)
              number_died number_survived synth_df of
         Inl e \<Rightarrow> Inl e
       | Inr synth_df' \<Rightarrow>
      (case synth_training_set X_col_names synth_df' X_test of
         Inl e \<Rightarrow> Inl e
       | Inr (X_synth_std, y_synth, X_test_std') \<Rightarrow>
           Inr \<lparr>model_X = X_train_std, model_y = y_train,
                model_synth_X = X_synth_std, model_synth_y = y_synth,
                final_X_test_std = X_test_std', final_synth_df = synth_df'\<rparr>)))))))"

section \<open>The structural constraints of the schema\<close>

text \<open>
  A one-hot group is valid in a row when exactly one of its members is 1 and all the
  others are 0; a row satisfies the schema when every one-hot group is valid and sums
  to 1 and every binary column holds 0 or 1.
\<close>

definition one_hot_valid :: "string list \<Rightarrow> row \<Rightarrow> bool" where
  "one_hot_valid g r =
     (\<exists>i\<in>{0..<length g}. \<forall>j\<in>{0..<length g}. r (g ! j) = (if j = i then 1 else 0))"

text \<open>
  The relation between a raw row \<open>r\<close> and a repaired row \<open>r'\<close> on a one-hot group:
  one member of the group is 1 in \<open>r'\<close> and all others are 0, that member holds a maximum
  of the raw values of the group in \<open>r\<close>, and every member before it in the order of the
  group holds a strictly smaller raw value.
\<close>

definition first_maximum_set :: "string list \<Rightarrow> row \<Rightarrow> row \<Rightarrow> bool" where
  "first_maximum_set g r r' =
     (\<exists>i<length g. r' (g ! i) = 1 \<and> (\<forall>j<length g. j \<noteq> i \<longrightarrow> r' (g ! j) = 0) \<and>
        (\<forall>j<length g. r (g ! j) \<le> r (g ! i)) \<and> (\<forall>j<i. r (g ! j) < r (g ! i)))"

definition satisfies_schema :: "string list \<Rightarrow> row \<Rightarrow> bool" where
  "satisfies_schema X_col_names r =
     ((\<forall>g\<in>set (one_hot_cols X_col_names). one_hot_valid g r \<and> sum_list (map r g) = 1) \<and>
      (\<forall>c\<in>set binary_cols. r c = 0 \<or> r c = 1))"

section \<open>Example data\<close>

text \<open>
  A frame with the columns the script needs: the integer and binary columns, one
  untouched continuous column and at least one column for every one-hot prefix.  The
  example patients differ in \<^verbatim>\<open>avg_glucose_level\<close> only.
\<close>

definition demo_cols :: "string list" where
  "demo_cols = [''age'', ''avg_glucose_level'', ''bmi'', ''hypertension'', ''heart_disease'',
     ''ever_married'', ''gender_Female'', ''gender_Male'', ''work_type_Private'',
     ''residence_type_Urban'', ''smoking_status_smokes'']"

definition patient :: "real \<Rightarrow> row" where
  "patient glucose = row_of demo_cols [40, glucose, 25, 0, 0, 1, 0, 1, 1, 1, 1]"

text \<open>
  A small run of the whole script: fifteen patients, eight of class 0 and seven of class
  1; every shuffle keeps the order it is given, and every draw of SMOTE picks the third
  neighbour of the first member of the class with step 1/4.
\<close>

definition demo_X :: "row list" where
  "demo_X = [patient 99, patient 101, patient 99,
             patient 99, patient 99, patient 99, patient 101, patient 101, patient 101,
             patient 99, patient 99, patient 99, patient 101, patient 101, patient 101]"

definition demo_y :: "int list" where
  "demo_y = [0, 0, 1, 0, 0, 0, 0, 0, 0, 1, 1, 1, 1, 1, 1]"

definition demo_rnd :: random_source where
  "demo_rnd = \<lparr>split_rs = [], smote_draws = (\<lambda>c j. (2, 1 / 4)), shuffle_188_rs = [],
                shuffle_245_rs = [], sample_249_rs = [], sample_253_rs = [],
                shuffle_257_rs = []\<rparr>"

text \<open>
  A second random source for the same patients: the first draw for class 0 picks the
  first neighbour of the first member, which has the same features, so that the new
  sample is a copy of a real record; the second draw gives the midpoint of two real
  records; the shuffle of line 188 exchanges the first two rows.
\<close>

definition draws_with_copy :: "int \<Rightarrow> nat \<Rightarrow> nat \<times> real" where
  "draws_with_copy c j =
     (if c = 0 \<and> j = 0 then (0, 1 / 4) else if c = 0 \<and> j = 1 then (2, 1 / 2) else (2, 1 / 4))"

definition raw_sample :: row where
  "raw_sample = row_of demo_cols [417 / 10, 99, 51 / 2, 13 / 10, 1 / 2, - 1 / 5, 3 / 10, 3 / 10, 7 / 10, 1, - 2]"

section \<open>Properties of the repair\<close>

lemma argmax_loop_spec:
  assumes "length pre = i" "idx < i" "pre ! idx = mp"
    "\<forall>j<i. pre ! j \<le> mp" "\<forall>j<idx. pre ! j < mp"
  shows "argmax_loop vs i mp idx < length (pre @ vs) \<and>
         (\<forall>j<length (pre @ vs). (pre @ vs) ! j \<le> (pre @ vs) ! argmax_loop vs i mp idx) \<and>
         (\<forall>j<argmax_loop vs i mp idx. (pre @ vs) ! j < (pre @ vs) ! argmax_loop vs i mp idx)"
  using assms
proof (induction vs arbitrary: pre i mp idx)
  case Nil
  then show ?case by auto
next
  case (Cons v vs)
  show ?case
  proof (cases "mp < v")
    case True
    have a: "length (pre @ [v]) = Suc i" using Cons.prems by simp
    have b: "i < Suc i" by simp
    have c: "(pre @ [v]) ! i = v" using Cons.prems by (simp add: nth_append)
    have d: "\<forall>j<Suc i. (pre @ [v]) ! j \<le> v"
      using Cons.prems True by (auto simp: nth_append less_Suc_eq)
    have e: "\<forall>j<i. (pre @ [v]) ! j < v"
      using Cons.prems True by (auto simp: nth_append)
    from Cons.IH[OF a b c d e] True show ?thesis by simp
  next
    case False
    have a: "length (pre @ [v]) = Suc i" using Cons.prems by simp
    have b: "idx < Suc i" using Cons.prems by simp
    have c: "(pre @ [v]) ! idx = mp" using Cons.prems by (simp add: nth_append)
    have d: "\<forall>j<Suc i. (pre @ [v]) ! j \<le> mp"
      using Cons.prems False by (auto simp: nth_append less_Suc_eq)
    have e: "\<forall>j<idx. (pre @ [v]) ! j < mp"
      using Cons.prems by (auto simp: nth_append)
    from Cons.IH[OF a b c d e] False show ?thesis by simp
  qed
qed

lemma np_argmax_spec:
  assumes "x \<noteq> []"
  shows "\<exists>h. np_argmax x = Inr h \<and> h < length x \<and> (\<forall>j<length x. x ! j \<le> x ! h) \<and> (\<forall>j<h. x ! j < x ! h)"
proof -
  from assms obtain v vs where x: "x = v # vs" by (cases x) auto
  have "argmax_loop vs 1 v 0 < length ([v] @ vs) \<and>
         (\<forall>j<length ([v] @ vs). ([v] @ vs) ! j \<le> ([v] @ vs) ! argmax_loop vs 1 v 0) \<and>
         (\<forall>j<argmax_loop vs 1 v 0. ([v] @ vs) ! j < ([v] @ vs) ! argmax_loop vs 1 v 0)"
    by (rule argmax_loop_spec) auto
  then show ?thesis using x by (simp add: np_argmax_def)
qed

lemma make_one_hot_spec:
  assumes "x \<noteq> []"
  shows "\<exists>h<length x. make_one_hot x = Inr ((replicate (length x) 0)[h := 1]) \<and>
           (\<forall>j<length x. x ! j \<le> x ! h) \<and> (\<forall>j<h. x ! j < x ! h)"
proof -
  from np_argmax_spec[OF assms] obtain h where h: "np_argmax x = Inr h" "h < length x"
    "\<forall>j<length x. x ! j \<le> x ! h" "\<forall>j<h. x ! j < x ! h" by blast
  have "map (\<lambda>v. v * 0) x = replicate (length x) (0::real)"
    by (simp add: map_replicate_const)
  with h show ?thesis by (auto simp: make_one_hot_def)
qed

lemma set_cols_other:
  assumes "c \<notin> set cs"
  shows "set_cols cs vs r c = r c"
  using assms by (induction cs vs r rule: set_cols.induct) auto

lemma set_cols_nth:
  assumes "distinct cs" "length vs = length cs" "i < length cs"
  shows "set_cols cs vs r (cs ! i) = vs ! i"
  using assms
proof (induction cs vs r arbitrary: i rule: set_cols.induct)
  case (1 c cs v vs r)
  show ?case
  proof (cases i)
    case 0
    have "c \<notin> set cs" using "1.prems" by simp
    then show ?thesis using 0 by (simp add: set_cols_other)
  next
    case (Suc k)
    then show ?thesis using "1.prems" "1.IH"[of k] by (simp add: fun_upd_def)
  qed
qed auto

lemma one_hot_row_spec:
  assumes "distinct g" "g \<noteq> []"
  shows "\<exists>i<length g. \<exists>r'. one_hot_row g r = Inr r' \<and>
           r' (g ! i) = 1 \<and> (\<forall>j<length g. j \<noteq> i \<longrightarrow> r' (g ! j) = 0) \<and>
           (\<forall>c. c \<notin> set g \<longrightarrow> r' c = r c) \<and>
           (\<forall>j<length g. r (g ! j) \<le> r (g ! i)) \<and> (\<forall>j<i. r (g ! j) < r (g ! i))"
proof -
  have ne: "map r g \<noteq> []" using assms by simp
  from make_one_hot_spec[OF ne] obtain h where h: "h < length g"
    "make_one_hot (map r g) = Inr ((replicate (length g) 0)[h := 1])"
    "\<forall>j<length g. r (g ! j) \<le> r (g ! h)" "\<forall>j<h. r (g ! j) < r (g ! h)"
    by auto
  let ?v = "(replicate (length g) (0::real))[h := 1]"
  have len: "length ?v = length g" by simp
  have r': "one_hot_row g r = Inr (set_cols g ?v r)" using h by (simp add: one_hot_row_def)
  have "set_cols g ?v r (g ! h) = 1" using set_cols_nth[OF assms(1) len h(1)] h(1) by simp
  moreover have "\<forall>j<length g. j \<noteq> h \<longrightarrow> set_cols g ?v r (g ! j) = 0"
    using set_cols_nth[OF assms(1) len] by auto
  moreover have "\<forall>c. c \<notin> set g \<longrightarrow> set_cols g ?v r c = r c" by (simp add: set_cols_other)
  ultimately show ?thesis using h r' by blast
qed

lemma one_hot_row_valid:
  assumes "distinct g" "one_hot_row g r = Inr r'"
  shows "one_hot_valid g r' \<and> (\<forall>c. c \<notin> set g \<longrightarrow> r' c = r c)"
proof -
  have ne: "g \<noteq> []"
    using assms(2) by (auto simp: one_hot_row_def make_one_hot_def np_argmax_def)
  from one_hot_row_spec[OF assms(1) ne, of r] assms(2)
  obtain i where i: "i < length g" "r' (g ! i) = 1" "\<forall>j<length g. j \<noteq> i \<longrightarrow> r' (g ! j) = 0"
    "\<forall>c. c \<notin> set g \<longrightarrow> r' c = r c" by auto
  then show ?thesis unfolding one_hot_valid_def by auto
qed

lemma one_hot_valid_cong:
  assumes "one_hot_valid g r" "\<forall>c\<in>set g. r' c = r c"
  shows "one_hot_valid g r'"
  using assms unfolding one_hot_valid_def by auto

lemma one_hot_rows_rel:
  assumes "distinct g" "one_hot_rows g df = Inr df'"
  shows "list_all2 (\<lambda>r r'. one_hot_valid g r' \<and> (\<forall>c. c \<notin> set g \<longrightarrow> r' c = r c)) df df'"
  using assms
proof (induction df arbitrary: df')
  case Nil
  then show ?case by simp
next
  case (Cons r rs)
  then show ?case
    by (auto split: sum.splits dest: one_hot_row_valid)
qed

lemma one_hot_groups_rel:
  assumes "sorted_wrt (\<lambda>a b. set a \<inter> set b = {}) gs" "\<forall>g\<in>set gs. distinct g"
    "one_hot_groups gs df = Inr df'"
  shows "list_all2 (\<lambda>r r'. (\<forall>g\<in>set gs. one_hot_valid g r') \<and>
            (\<forall>c. (\<forall>g\<in>set gs. c \<notin> set g) \<longrightarrow> r' c = r c)) df df'"
  using assms
proof (induction gs arbitrary: df)
  case Nil
  then show ?case by (simp add: list_all2_same)
next
  case (Cons g gs)
  from Cons.prems(3) obtain df1 where df1: "one_hot_rows g df = Inr df1"
    "one_hot_groups gs df1 = Inr df'" by (auto split: sum.splits)
  have dg: "distinct g" using Cons.prems(2) by simp
  have disj: "\<forall>h\<in>set gs. set g \<inter> set h = {}" using Cons.prems(1) by simp
  note a = one_hot_rows_rel[OF dg df1(1)]
  have b: "list_all2 (\<lambda>r r'. (\<forall>g\<in>set gs. one_hot_valid g r') \<and>
            (\<forall>c. (\<forall>g\<in>set gs. c \<notin> set g) \<longrightarrow> r' c = r c)) df1 df'"
    using Cons.IH[OF _ _ df1(2)] Cons.prems by simp
  show ?case
  proof (rule list_all2_trans[OF _ a b])
    fix r r1 r'
    assume 1: "one_hot_valid g r1 \<and> (\<forall>c. c \<notin> set g \<longrightarrow> r1 c = r c)"
      and 2: "(\<forall>g\<in>set gs. one_hot_valid g r') \<and> (\<forall>c. (\<forall>g\<in>set gs. c \<notin> set g) \<longrightarrow> r' c = r1 c)"
    have "\<forall>c\<in>set g. r' c = r1 c" using 2 disj by blast
    then have "one_hot_valid g r'" using 1 one_hot_valid_cong by blast
    then show "(\<forall>g\<in>set (g # gs). one_hot_valid g r') \<and>
        (\<forall>c. (\<forall>g\<in>set (g # gs). c \<notin> set g) \<longrightarrow> r' c = r c)"
      using 1 2 by auto
  qed
qed

lemma round_integer_cols_rel:
  assumes "round_integer_cols X cols df = Inr df'"
  shows "set cols \<subseteq> set X \<and> list_all2 (\<lambda>r r'. (\<forall>c\<in>set cols. \<exists>x. r' c = round_half_even x) \<and>
            (\<forall>c. c \<notin> set cols \<longrightarrow> r' c = r c)) df df'"
  using assms
proof (induction cols arbitrary: df)
  case Nil
  then show ?case by (simp add: list_all2_same)
next
  case (Cons col cols)
  let ?df1 = "map (\<lambda>r. r(col := round_half_even (r col))) df"
  from Cons.prems have 1: "col \<in> set X" "round_integer_cols X cols ?df1 = Inr df'"
    by (auto split: if_splits)
  have a: "list_all2 (\<lambda>r r1. r1 = r(col := round_half_even (r col))) df ?df1"
    by (simp add: list_all2_map2 list_all2_same)
  from Cons.IH[OF 1(2)] have sub: "set cols \<subseteq> set X" and
    b: "list_all2 (\<lambda>r r'. (\<forall>c\<in>set cols. \<exists>x. r' c = round_half_even x) \<and>
            (\<forall>c. c \<notin> set cols \<longrightarrow> r' c = r c)) ?df1 df'" by auto
  have "list_all2 (\<lambda>r r'. (\<forall>c\<in>set (col # cols). \<exists>x. r' c = round_half_even x) \<and>
            (\<forall>c. c \<notin> set (col # cols) \<longrightarrow> r' c = r c)) df df'"
  proof (rule list_all2_trans[OF _ a b])
    fix r r1 r'
    assume r1: "r1 = r(col := round_half_even (r col))"
      and 2: "(\<forall>c\<in>set cols. \<exists>x. r' c = round_half_even x) \<and> (\<forall>c. c \<notin> set cols \<longrightarrow> r' c = r1 c)"
    show "(\<forall>c\<in>set (col # cols). \<exists>x. r' c = round_half_even x) \<and>
            (\<forall>c. c \<notin> set (col # cols) \<longrightarrow> r' c = r c)"
    proof (cases "col \<in> set cols")
      case True
      then show ?thesis using r1 2 by auto
    next
      case False
      then have "r' col = round_half_even (r col)" using r1 2 by simp
      then show ?thesis using r1 2 by auto
    qed
  qed
  then show ?case using 1 sub by simp
qed

lemma round_half_even_of_int: "round_half_even (of_int n) = of_int n"
  by (simp add: round_half_even_def)

lemma round_half_even_is_int: "\<exists>n::int. round_half_even x = of_int n"
proof -
  have "round_half_even x = of_int (let f = \<lfloor>x\<rfloor>; d = x - of_int f in
      if d < 1 / 2 then f else if 1 / 2 < d then f + 1 else if even f then f else f + 1)"
    by (simp add: round_half_even_def Let_def)
  then show ?thesis by blast
qed

lemma round_half_even_idem: "round_half_even (round_half_even x) = round_half_even x"
  using round_half_even_is_int[of x] by (auto simp: round_half_even_of_int)

lemma round_half_even_clip: "round_half_even (np_clip x 0 1) = 0 \<or> round_half_even (np_clip x 0 1) = 1"
proof -
  let ?y = "np_clip x 0 1"
  have r: "0 \<le> ?y" "?y \<le> 1" by (auto simp: np_clip_def)
  show ?thesis
  proof (cases "?y = 1")
    case True
    then show ?thesis using round_half_even_of_int[of 1] by simp
  next
    case False
    then have "\<lfloor>?y\<rfloor> = 0" using r by (simp add: floor_eq_iff)
    then show ?thesis by (auto simp: round_half_even_def Let_def)
  qed
qed

lemma round_half_even_clip_fix:
  assumes "v = 0 \<or> v = 1"
  shows "round_half_even (np_clip v 0 1) = v"
  using assms round_half_even_of_int[of 0] round_half_even_of_int[of 1]
  by (auto simp: np_clip_def)

lemma clip_binary_cols_rel:
  assumes "clip_binary_cols X cols df = Inr df'"
  shows "set cols \<subseteq> set X \<and> list_all2 (\<lambda>r r'. (\<forall>c\<in>set cols. r' c = 0 \<or> r' c = 1) \<and>
            (\<forall>c. c \<notin> set cols \<longrightarrow> r' c = r c)) df df'"
  using assms
proof (induction cols arbitrary: df)
  case Nil
  then show ?case by (simp add: list_all2_same)
next
  case (Cons col cols)
  let ?df1 = "map (\<lambda>r. r(col := round_half_even (np_clip (r col) 0 1))) df"
  from Cons.prems have 1: "col \<in> set X" "clip_binary_cols X cols ?df1 = Inr df'"
    by (auto split: if_splits)
  have a: "list_all2 (\<lambda>r r1. r1 = r(col := round_half_even (np_clip (r col) 0 1))) df ?df1"
    by (simp add: list_all2_map2 list_all2_same)
  from Cons.IH[OF 1(2)] have sub: "set cols \<subseteq> set X" and
    b: "list_all2 (\<lambda>r r'. (\<forall>c\<in>set cols. r' c = 0 \<or> r' c = 1) \<and>
            (\<forall>c. c \<notin> set cols \<longrightarrow> r' c = r c)) ?df1 df'" by auto
  have "list_all2 (\<lambda>r r'. (\<forall>c\<in>set (col # cols). r' c = 0 \<or> r' c = 1) \<and>
            (\<forall>c. c \<notin> set (col # cols) \<longrightarrow> r' c = r c)) df df'"
  proof (rule list_all2_trans[OF _ a b])
    fix r r1 r'
    assume r1: "r1 = r(col := round_half_even (np_clip (r col) 0 1))"
      and 2: "(\<forall>c\<in>set cols. r' c = 0 \<or> r' c = 1) \<and> (\<forall>c. c \<notin> set cols \<longrightarrow> r' c = r1 c)"
    show "(\<forall>c\<in>set (col # cols). r' c = 0 \<or> r' c = 1) \<and>
            (\<forall>c. c \<notin> set (col # cols) \<longrightarrow> r' c = r c)"
    proof (cases "col \<in> set cols")
      case True
      then show ?thesis using r1 2 by auto
    next
      case False
      then have "r' col = round_half_even (np_clip (r col) 0 1)" using r1 2 by simp
      then show ?thesis using r1 2 round_half_even_clip[of "r col"] by auto
    qed
  qed
  then show ?case using 1 sub by simp
qed

lemma prefix_hd:
  assumes "take (length p) x = p" "p \<noteq> []"
  shows "hd x = hd p"
  using assms by (metis hd_take length_greater_0_conv)

lemma categorical_hd:
  assumes "p \<in> set categorical"
  shows "p \<noteq> [] \<and> hd p \<in> {CHR ''g'', CHR ''w'', CHR ''r'', CHR ''s''}"
  using assms by (auto simp: categorical_def)

lemma one_hot_cols_distinct:
  assumes "distinct X"
  shows "\<forall>g\<in>set (one_hot_cols X). distinct g"
  using assms by (simp add: one_hot_cols_def)

lemma one_hot_cols_hd:
  assumes "g \<in> set (one_hot_cols X)" "c \<in> set g"
  shows "hd c \<in> {CHR ''g'', CHR ''w'', CHR ''r'', CHR ''s''}"
proof -
  from assms obtain p where p: "p \<in> set categorical" "take (length p) c = p"
    by (auto simp: one_hot_cols_def)
  then have "hd c = hd p" using prefix_hd categorical_hd by blast
  then show ?thesis using categorical_hd[OF p(1)] by simp
qed

lemma group_disjoint:
  assumes "p \<noteq> []" "q \<noteq> []" "hd p \<noteq> hd q"
  shows "{x \<in> set X. take (length p) x = p} \<inter> {x \<in> set X. take (length q) x = q} = {}"
proof -
  have "\<not> (take (length p) x = p \<and> take (length q) x = q)" for x
    using assms prefix_hd by metis
  then show ?thesis by auto
qed

lemma one_hot_cols_disjoint:
  "sorted_wrt (\<lambda>a b. set a \<inter> set b = {}) (one_hot_cols X)"
  unfolding one_hot_cols_def categorical_def
  by (simp add: group_disjoint del: list.size)

lemma one_hot_cols_subset:
  assumes "g \<in> set (one_hot_cols X)"
  shows "set g \<subseteq> set X"
  using assms by (auto simp: one_hot_cols_def)

lemma integer_not_one_hot:
  assumes "g \<in> set (one_hot_cols X)" "c \<in> set integer_cols"
  shows "c \<notin> set g"
  using one_hot_cols_hd[OF assms(1), of c] assms(2) by (auto simp: integer_cols_def)

lemma binary_not_one_hot:
  assumes "g \<in> set (one_hot_cols X)" "c \<in> set binary_cols"
  shows "c \<notin> set g"
  using one_hot_cols_hd[OF assms(1), of c] assms(2) by (auto simp: binary_cols_def)

lemma binary_not_integer:
  assumes "c \<in> set binary_cols"
  shows "c \<notin> set integer_cols"
  using assms by (auto simp: binary_cols_def integer_cols_def)

lemma list_all2_rightD:
  assumes "list_all2 (\<lambda>x y. Q y) xs ys" "y \<in> set ys"
  shows "Q y"
  using assms by (auto simp: in_set_conv_nth list_all2_conv_all_nth)

lemma one_hot_valid_sum:
  assumes "one_hot_valid g r"
  shows "sum_list (map r g) = 1"
proof -
  from assms obtain i where i: "i < length g" "\<forall>j<length g. r (g ! j) = (if j = i then 1 else 0)"
    unfolding one_hot_valid_def by auto
  have "sum_list (map r g) = (\<Sum>j = 0..<length g. r (g ! j))"
    by (simp add: sum_list_sum_nth)
  also have "\<dots> = (\<Sum>j = 0..<length g. if j = i then 1 else 0)"
    using i(2) by (intro sum.cong) auto
  also have "\<dots> = 1" using i(1) by simp
  finally show ?thesis .
qed

lemma repair_rows:
  assumes "distinct X" "repair X df = Inr df'"
  shows "set integer_cols \<subseteq> set X \<and> set binary_cols \<subseteq> set X \<and>
         list_all2 (\<lambda>r r'. (\<forall>g\<in>set (one_hot_cols X). one_hot_valid g r') \<and>
            (\<forall>c\<in>set integer_cols. \<exists>n::int. r' c = of_int n) \<and>
            (\<forall>c\<in>set binary_cols. r' c = 0 \<or> r' c = 1)) df df'"
proof -
  from assms(2) obtain df1 df2 where
    s1: "one_hot_groups (one_hot_cols X) df = Inr df1" and
    s2: "round_integer_cols X integer_cols df1 = Inr df2" and
    s3: "clip_binary_cols X binary_cols df2 = Inr df'"
    by (auto simp: repair_def split: sum.splits)
  note a = one_hot_groups_rel[OF one_hot_cols_disjoint one_hot_cols_distinct[OF assms(1)] s1]
  from round_integer_cols_rel[OF s2] have i: "set integer_cols \<subseteq> set X" and
    b: "list_all2 (\<lambda>r r'. (\<forall>c\<in>set integer_cols. \<exists>x. r' c = round_half_even x) \<and>
            (\<forall>c. c \<notin> set integer_cols \<longrightarrow> r' c = r c)) df1 df2" by auto
  from clip_binary_cols_rel[OF s3] have j: "set binary_cols \<subseteq> set X" and
    c: "list_all2 (\<lambda>r r'. (\<forall>c\<in>set binary_cols. r' c = 0 \<or> r' c = 1) \<and>
            (\<forall>c. c \<notin> set binary_cols \<longrightarrow> r' c = r c)) df2 df'" by auto
  have ab: "list_all2 (\<lambda>r r2. (\<forall>g\<in>set (one_hot_cols X). one_hot_valid g r2) \<and>
            (\<forall>c\<in>set integer_cols. \<exists>n::int. r2 c = of_int n)) df df2"
  proof (rule list_all2_trans[OF _ a b])
    fix r r1 r2
    assume 1: "(\<forall>g\<in>set (one_hot_cols X). one_hot_valid g r1) \<and>
            (\<forall>c. (\<forall>g\<in>set (one_hot_cols X). c \<notin> set g) \<longrightarrow> r1 c = r c)"
      and 2: "(\<forall>c\<in>set integer_cols. \<exists>x. r2 c = round_half_even x) \<and>
            (\<forall>c. c \<notin> set integer_cols \<longrightarrow> r2 c = r1 c)"
    have "one_hot_valid g r2" if g: "g \<in> set (one_hot_cols X)" for g
    proof (rule one_hot_valid_cong)
      show "one_hot_valid g r1" using 1 g by simp
      show "\<forall>c\<in>set g. r2 c = r1 c" using 2 integer_not_one_hot[OF g] by blast
    qed
    moreover have "\<forall>c\<in>set integer_cols. \<exists>n::int. r2 c = of_int n"
      using 2 round_half_even_is_int by metis
    ultimately show "(\<forall>g\<in>set (one_hot_cols X). one_hot_valid g r2) \<and>
            (\<forall>c\<in>set integer_cols. \<exists>n::int. r2 c = of_int n)" by simp
  qed
  have "list_all2 (\<lambda>r r'. (\<forall>g\<in>set (one_hot_cols X). one_hot_valid g r') \<and>
            (\<forall>c\<in>set integer_cols. \<exists>n::int. r' c = of_int n) \<and>
            (\<forall>c\<in>set binary_cols. r' c = 0 \<or> r' c = 1)) df df'"
  proof (rule list_all2_trans[OF _ ab c])
    fix r r2 r'
    assume 1: "(\<forall>g\<in>set (one_hot_cols X). one_hot_valid g r2) \<and>
            (\<forall>c\<in>set integer_cols. \<exists>n::int. r2 c = of_int n)"
      and 2: "(\<forall>c\<in>set binary_cols. r' c = 0 \<or> r' c = 1) \<and>
            (\<forall>c. c \<notin> set binary_cols \<longrightarrow> r' c = r2 c)"
    have "one_hot_valid g r'" if g: "g \<in> set (one_hot_cols X)" for g
    proof (rule one_hot_valid_cong)
      show "one_hot_valid g r2" using 1 g by simp
      show "\<forall>c\<in>set g. r' c = r2 c" using 2 binary_not_one_hot[OF g] by blast
    qed
    moreover have "\<forall>c\<in>set integer_cols. \<exists>n::int. r' c = of_int n"
      using 1 2 binary_not_integer by metis
    ultimately show "(\<forall>g\<in>set (one_hot_cols X). one_hot_valid g r') \<and>
            (\<forall>c\<in>set integer_cols. \<exists>n::int. r' c = of_int n) \<and>
            (\<forall>c\<in>set binary_cols. r' c = 0 \<or> r' c = 1)" using 2 by simp
  qed
  then show ?thesis using i j by simp
qed

text \<open>
  Claim C3.  Every row of the frame that the repair returns satisfies the structural
  constraints: in each one-hot group exactly one member is 1 and the others are 0, so the
  group sums to 1, and each binary column holds 0 or 1.  The column labels of a frame
  are distinct.
\<close>

theorem repair_satisfies_schema:
  assumes "distinct X_col_names" "repair X_col_names synth_df = Inr df'" "r' \<in> set df'"
  shows "satisfies_schema X_col_names r'"
proof -
  from repair_rows[OF assms(1,2)] have
    "list_all2 (\<lambda>r r'. (\<forall>g\<in>set (one_hot_cols X_col_names). one_hot_valid g r') \<and>
            (\<forall>c\<in>set integer_cols. \<exists>n::int. r' c = of_int n) \<and>
            (\<forall>c\<in>set binary_cols. r' c = 0 \<or> r' c = 1)) synth_df df'" by simp
  from list_all2_rightD[OF this assms(3)] show ?thesis
    unfolding satisfies_schema_def using one_hot_valid_sum by blast
qed

lemma one_hot_row_fix:
  assumes "distinct g" "one_hot_valid g r"
  shows "one_hot_row g r = Inr r"
proof -
  from assms(2) obtain i where i: "i < length g" "\<forall>j<length g. r (g ! j) = (if j = i then 1 else 0)"
    unfolding one_hot_valid_def by auto
  then have ne: "g \<noteq> []" by auto
  from one_hot_row_spec[OF assms(1) ne, of r] obtain h r' where h: "h < length g"
    "one_hot_row g r = Inr r'" "r' (g ! h) = 1" "\<forall>j<length g. j \<noteq> h \<longrightarrow> r' (g ! j) = 0"
    "\<forall>c. c \<notin> set g \<longrightarrow> r' c = r c" "\<forall>j<length g. r (g ! j) \<le> r (g ! h)" by blast
  have "r (g ! i) \<le> r (g ! h)" using h(6) i(1) by simp
  then have hi: "h = i" using i h(1) by (auto split: if_splits)
  have "r' c = r c" for c
  proof (cases "c \<in> set g")
    case True
    then obtain j where j: "j < length g" "c = g ! j" by (auto simp: in_set_conv_nth)
    then show ?thesis using h(3,4) i(2) hi by (cases "j = i") auto
  next
    case False
    then show ?thesis using h(5) by simp
  qed
  then have "r' = r" by (rule ext)
  then show ?thesis using h(2) by simp
qed

lemma one_hot_rows_fix:
  assumes "distinct g" "\<forall>r\<in>set df. one_hot_valid g r"
  shows "one_hot_rows g df = Inr df"
  using assms by (induction df) (auto simp: one_hot_row_fix)

lemma one_hot_groups_fix:
  assumes "\<forall>g\<in>set gs. distinct g \<and> (\<forall>r\<in>set df. one_hot_valid g r)"
  shows "one_hot_groups gs df = Inr df"
  using assms by (induction gs) (auto simp: one_hot_rows_fix)

lemma round_integer_cols_fix:
  assumes "set cols \<subseteq> set X" "\<forall>r\<in>set df. \<forall>c\<in>set cols. round_half_even (r c) = r c"
  shows "round_integer_cols X cols df = Inr df"
  using assms
proof (induction cols)
  case Nil
  then show ?case by simp
next
  case (Cons col cols)
  have "map (\<lambda>r. r(col := round_half_even (r col))) df = df"
    using Cons.prems(2) by (intro map_idI) auto
  then show ?case using Cons by simp
qed

lemma clip_binary_cols_fix:
  assumes "set cols \<subseteq> set X" "\<forall>r\<in>set df. \<forall>c\<in>set cols. r c = 0 \<or> r c = 1"
  shows "clip_binary_cols X cols df = Inr df"
  using assms
proof (induction cols)
  case Nil
  then show ?case by simp
next
  case (Cons col cols)
  have "map (\<lambda>r. r(col := round_half_even (np_clip (r col) 0 1))) df = df"
    using Cons.prems(2) by (intro map_idI) (auto simp: round_half_even_clip_fix)
  then show ?case using Cons by simp
qed

text \<open>
  Claim C5.  The repair is idempotent: repairing the frame that a repair returned gives
  that frame again.
\<close>

theorem repair_idempotent:
  assumes "distinct X_col_names" "repair X_col_names synth_df = Inr df'"
  shows "repair X_col_names df' = Inr df'"
proof -
  from repair_rows[OF assms] have i: "set integer_cols \<subseteq> set X_col_names"
    and b: "set binary_cols \<subseteq> set X_col_names"
    and l: "list_all2 (\<lambda>r r'. (\<forall>g\<in>set (one_hot_cols X_col_names). one_hot_valid g r') \<and>
            (\<forall>c\<in>set integer_cols. \<exists>n::int. r' c = of_int n) \<and>
            (\<forall>c\<in>set binary_cols. r' c = 0 \<or> r' c = 1)) synth_df df'" by auto
  have p: "(\<forall>g\<in>set (one_hot_cols X_col_names). one_hot_valid g r') \<and>
            (\<forall>c\<in>set integer_cols. \<exists>n::int. r' c = of_int n) \<and>
            (\<forall>c\<in>set binary_cols. r' c = 0 \<or> r' c = 1)" if "r' \<in> set df'" for r'
    using list_all2_rightD[OF l that] .
  have 1: "one_hot_groups (one_hot_cols X_col_names) df' = Inr df'"
    using p one_hot_cols_distinct[OF assms(1)] by (intro one_hot_groups_fix) blast
  have "\<forall>r\<in>set df'. \<forall>c\<in>set integer_cols. round_half_even (r c) = r c"
    using p round_half_even_of_int by metis
  then have 2: "round_integer_cols X_col_names integer_cols df' = Inr df'"
    using i by (intro round_integer_cols_fix)
  have 3: "clip_binary_cols X_col_names binary_cols df' = Inr df'"
    using b p by (intro clip_binary_cols_fix) auto
  show ?thesis using 1 2 3 by (simp add: repair_def)
qed

lemma one_hot_rows_total:
  assumes "g \<noteq> []"
  shows "\<exists>df'. one_hot_rows g df = Inr df'"
proof (induction df)
  case Nil
  then show ?case by simp
next
  case (Cons r rs)
  have "map r g \<noteq> []" using assms by simp
  from make_one_hot_spec[OF this] obtain v where "make_one_hot (map r g) = Inr v" by blast
  then show ?case using Cons by (auto simp: one_hot_row_def)
qed

lemma one_hot_groups_total:
  assumes "\<forall>g\<in>set gs. g \<noteq> []"
  shows "\<exists>df'. one_hot_groups gs df = Inr df'"
  using assms
proof (induction gs arbitrary: df)
  case Nil
  then show ?case by simp
next
  case (Cons g gs)
  then obtain df1 where "one_hot_rows g df = Inr df1" using one_hot_rows_total[of g df] by auto
  then show ?case using Cons by simp
qed

lemma round_integer_cols_total:
  assumes "set cols \<subseteq> set X"
  shows "\<exists>df'. round_integer_cols X cols df = Inr df'"
  using assms by (induction cols arbitrary: df) auto

lemma clip_binary_cols_total:
  assumes "set cols \<subseteq> set X"
  shows "\<exists>df'. clip_binary_cols X cols df = Inr df'"
  using assms by (induction cols arbitrary: df) auto

lemma repair_total:
  assumes "\<forall>g\<in>set (one_hot_cols X). g \<noteq> []" "set integer_cols \<subseteq> set X" "set binary_cols \<subseteq> set X"
  shows "\<exists>df'. repair X df = Inr df'"
proof -
  from one_hot_groups_total[OF assms(1)] obtain df1 where
    1: "one_hot_groups (one_hot_cols X) df = Inr df1" by blast
  from round_integer_cols_total[OF assms(2)] obtain df2 where
    2: "round_integer_cols X integer_cols df1 = Inr df2" by blast
  from clip_binary_cols_total[OF assms(3)] obtain df3 where
    3: "clip_binary_cols X binary_cols df2 = Inr df3" by blast
  show ?thesis using 1 2 3 by (simp add: repair_def)
qed

lemma demo_cols_ok:
  "distinct demo_cols" "\<forall>g\<in>set (one_hot_cols demo_cols). g \<noteq> []"
  "set integer_cols \<subseteq> set demo_cols" "set binary_cols \<subseteq> set demo_cols"
  by (simp_all add: demo_cols_def one_hot_cols_def categorical_def integer_cols_def binary_cols_def)

theorem repair_satisfies_schema_witness:
  "\<exists>df'. repair demo_cols [raw_sample] = Inr df' \<and> list_all (satisfies_schema demo_cols) df'"
proof -
  from repair_total[OF demo_cols_ok(2,3,4)] obtain df' where
    r: "repair demo_cols [raw_sample] = Inr df'" by blast
  have "\<forall>r'\<in>set df'. satisfies_schema demo_cols r'"
    using repair_satisfies_schema[OF demo_cols_ok(1) r] by blast
  then show ?thesis using r by (auto simp: list_all_iff)
qed

theorem repair_idempotent_witness:
  "\<exists>df'. repair demo_cols [raw_sample] = Inr df' \<and> repair demo_cols df' = Inr df'"
proof -
  from repair_total[OF demo_cols_ok(2,3,4)] obtain df' where
    r: "repair demo_cols [raw_sample] = Inr df'" by blast
  from repair_idempotent[OF demo_cols_ok(1) r] r show ?thesis by blast
qed

lemma one_hot_row_first_maximum_set:
  assumes "distinct g" "one_hot_row g r = Inr r'"
  shows "first_maximum_set g r r' \<and> (\<forall>c. c \<notin> set g \<longrightarrow> r' c = r c)"
proof -
  have ne: "g \<noteq> []"
    using assms(2) by (auto simp: one_hot_row_def make_one_hot_def np_argmax_def)
  from one_hot_row_spec[OF assms(1) ne, of r] assms(2) show ?thesis
    unfolding first_maximum_set_def by auto
qed

lemma first_maximum_set_cong:
  assumes "first_maximum_set g r r'" "\<forall>c\<in>set g. r0 c = r c" "\<forall>c\<in>set g. r1 c = r' c"
  shows "first_maximum_set g r0 r1"
proof -
  from assms(1) obtain i where i: "i < length g" "r' (g ! i) = 1"
    "\<forall>j<length g. j \<noteq> i \<longrightarrow> r' (g ! j) = 0"
    "\<forall>j<length g. r (g ! j) \<le> r (g ! i)" "\<forall>j<i. r (g ! j) < r (g ! i)"
    unfolding first_maximum_set_def by blast
  have a: "r0 (g ! j) = r (g ! j)" "r1 (g ! j) = r' (g ! j)" if "j < length g" for j
    using assms(2,3) that by simp_all
  have "r1 (g ! i) = 1 \<and> (\<forall>j<length g. j \<noteq> i \<longrightarrow> r1 (g ! j) = 0) \<and>
        (\<forall>j<length g. r0 (g ! j) \<le> r0 (g ! i)) \<and> (\<forall>j<i. r0 (g ! j) < r0 (g ! i))"
    using i a by auto
  then show ?thesis unfolding first_maximum_set_def using i(1) by blast
qed

lemma one_hot_rows_first_maximum_set:
  assumes "distinct g" "one_hot_rows g df = Inr df'"
  shows "list_all2 (\<lambda>r r'. first_maximum_set g r r' \<and> (\<forall>c. c \<notin> set g \<longrightarrow> r' c = r c)) df df'"
  using assms
proof (induction df arbitrary: df')
  case Nil
  then show ?case by simp
next
  case (Cons r rs)
  then show ?case
    by (auto split: sum.splits dest: one_hot_row_first_maximum_set)
qed

lemma one_hot_groups_first_maximum_set:
  assumes "sorted_wrt (\<lambda>a b. set a \<inter> set b = {}) gs" "\<forall>g\<in>set gs. distinct g"
    "one_hot_groups gs df = Inr df'"
  shows "list_all2 (\<lambda>r r'. (\<forall>g\<in>set gs. first_maximum_set g r r') \<and>
            (\<forall>c. (\<forall>g\<in>set gs. c \<notin> set g) \<longrightarrow> r' c = r c)) df df'"
  using assms
proof (induction gs arbitrary: df)
  case Nil
  then show ?case by (simp add: list_all2_same)
next
  case (Cons g gs)
  from Cons.prems(3) obtain df1 where df1: "one_hot_rows g df = Inr df1"
    "one_hot_groups gs df1 = Inr df'" by (auto split: sum.splits)
  have dg: "distinct g" using Cons.prems(2) by simp
  have disj: "\<forall>h\<in>set gs. set g \<inter> set h = {}" using Cons.prems(1) by simp
  note a = one_hot_rows_first_maximum_set[OF dg df1(1)]
  have b: "list_all2 (\<lambda>r r'. (\<forall>g\<in>set gs. first_maximum_set g r r') \<and>
            (\<forall>c. (\<forall>g\<in>set gs. c \<notin> set g) \<longrightarrow> r' c = r c)) df1 df'"
    using Cons.IH[OF _ _ df1(2)] Cons.prems by simp
  show ?case
  proof (rule list_all2_trans[OF _ a b])
    fix r r1 r'
    assume 1: "first_maximum_set g r r1 \<and> (\<forall>c. c \<notin> set g \<longrightarrow> r1 c = r c)"
      and 2: "(\<forall>g\<in>set gs. first_maximum_set g r1 r') \<and>
              (\<forall>c. (\<forall>g\<in>set gs. c \<notin> set g) \<longrightarrow> r' c = r1 c)"
    have g: "first_maximum_set g r r'"
    proof (rule first_maximum_set_cong[of g r r1])
      show "first_maximum_set g r r1" using 1 by simp
      show "\<forall>c\<in>set g. r c = r c" by simp
      show "\<forall>c\<in>set g. r' c = r1 c" using 2 disj by blast
    qed
    have "first_maximum_set h r r'" if h: "h \<in> set gs" for h
    proof (rule first_maximum_set_cong[of h r1 r'])
      show "first_maximum_set h r1 r'" using 2 h by simp
      show "\<forall>c\<in>set h. r c = r1 c"
      proof
        fix c assume "c \<in> set h"
        then have "c \<notin> set g" using disj h by blast
        then show "r c = r1 c" using 1 by simp
      qed
      show "\<forall>c\<in>set h. r' c = r' c" by simp
    qed
    then have all: "\<forall>h\<in>set (g # gs). first_maximum_set h r r'" using g by simp
    have "r' c = r c" if "\<forall>h\<in>set (g # gs). c \<notin> set h" for c
    proof -
      have "r' c = r1 c" using 2 that by simp
      moreover have "r1 c = r c" using 1 that by simp
      ultimately show ?thesis by simp
    qed
    then show "(\<forall>g\<in>set (g # gs). first_maximum_set g r r') \<and>
        (\<forall>c. (\<forall>g\<in>set (g # gs). c \<notin> set g) \<longrightarrow> r' c = r c)"
      using all by blast
  qed
qed

lemma repair_first_maximum_set:
  assumes "distinct X" "repair X df = Inr df'"
  shows "list_all2 (\<lambda>r r'. \<forall>g\<in>set (one_hot_cols X). first_maximum_set g r r') df df'"
proof -
  from assms(2) obtain df1 df2 where
    s1: "one_hot_groups (one_hot_cols X) df = Inr df1" and
    s2: "round_integer_cols X integer_cols df1 = Inr df2" and
    s3: "clip_binary_cols X binary_cols df2 = Inr df'"
    by (auto simp: repair_def split: sum.splits)
  note a = one_hot_groups_first_maximum_set[OF one_hot_cols_disjoint one_hot_cols_distinct[OF assms(1)] s1]
  from round_integer_cols_rel[OF s2] have
    b: "list_all2 (\<lambda>r r'. (\<forall>c\<in>set integer_cols. \<exists>x. r' c = round_half_even x) \<and>
            (\<forall>c. c \<notin> set integer_cols \<longrightarrow> r' c = r c)) df1 df2" by auto
  from clip_binary_cols_rel[OF s3] have
    c: "list_all2 (\<lambda>r r'. (\<forall>c\<in>set binary_cols. r' c = 0 \<or> r' c = 1) \<and>
            (\<forall>c. c \<notin> set binary_cols \<longrightarrow> r' c = r c)) df2 df'" by auto
  have ab: "list_all2 (\<lambda>r r2. \<forall>g\<in>set (one_hot_cols X). first_maximum_set g r r2) df df2"
  proof (rule list_all2_trans[OF _ a b])
    fix r r1 r2
    assume 1: "(\<forall>g\<in>set (one_hot_cols X). first_maximum_set g r r1) \<and>
            (\<forall>c. (\<forall>g\<in>set (one_hot_cols X). c \<notin> set g) \<longrightarrow> r1 c = r c)"
      and 2: "(\<forall>c\<in>set integer_cols. \<exists>x. r2 c = round_half_even x) \<and>
            (\<forall>c. c \<notin> set integer_cols \<longrightarrow> r2 c = r1 c)"
    show "\<forall>g\<in>set (one_hot_cols X). first_maximum_set g r r2"
    proof
      fix g assume g: "g \<in> set (one_hot_cols X)"
      show "first_maximum_set g r r2"
      proof (rule first_maximum_set_cong[of g r r1])
        show "first_maximum_set g r r1" using 1 g by simp
        show "\<forall>c\<in>set g. r c = r c" by simp
        show "\<forall>c\<in>set g. r2 c = r1 c" using 2 integer_not_one_hot[OF g] by blast
      qed
    qed
  qed
  show ?thesis
  proof (rule list_all2_trans[OF _ ab c])
    fix r r2 r'
    assume 1: "\<forall>g\<in>set (one_hot_cols X). first_maximum_set g r r2"
      and 2: "(\<forall>c\<in>set binary_cols. r' c = 0 \<or> r' c = 1) \<and>
            (\<forall>c. c \<notin> set binary_cols \<longrightarrow> r' c = r2 c)"
    show "\<forall>g\<in>set (one_hot_cols X). first_maximum_set g r r'"
    proof
      fix g assume g: "g \<in> set (one_hot_cols X)"
      show "first_maximum_set g r r'"
      proof (rule first_maximum_set_cong[of g r r2])
        show "first_maximum_set g r r2" using 1 g by simp
        show "\<forall>c\<in>set g. r c = r c" by simp
        show "\<forall>c\<in>set g. r' c = r2 c" using 2 binary_not_one_hot[OF g] by blast
      qed
    qed
  qed
qed

text \<open>
  Claim C4.  In the frame that the repair returns, row \<open>k\<close> holds, for every one-hot
  group \<open>g\<close>, the value 1 in one member of the group and 0 in all the others; the member
  set to 1 holds a maximum of the raw values of the group in row \<open>k\<close> of the frame given
  to the repair, whatever their sign or size, and every member before it in the order of
  the group holds a strictly smaller raw value, so that of several equal maxima the
  first is chosen.
\<close>

theorem repair_one_hot_first_maximum:
  assumes "distinct X_col_names" "repair X_col_names synth_df = Inr df'"
    "k < length synth_df" "g \<in> set (one_hot_cols X_col_names)"
  shows "length df' = length synth_df \<and>
         (\<exists>i<length g.
            (df' ! k) (g ! i) = 1 \<and>
            (\<forall>j<length g. j \<noteq> i \<longrightarrow> (df' ! k) (g ! j) = 0) \<and>
            (\<forall>j<length g. (synth_df ! k) (g ! j) \<le> (synth_df ! k) (g ! i)) \<and>
            (\<forall>j<i. (synth_df ! k) (g ! j) < (synth_df ! k) (g ! i)))"
proof -
  note l = repair_first_maximum_set[OF assms(1,2)]
  have len: "length df' = length synth_df" using l by (simp add: list_all2_lengthD)
  have "first_maximum_set g (synth_df ! k) (df' ! k)"
    using list_all2_nthD[OF l assms(3)] assms(4) by blast
  then show ?thesis using len unfolding first_maximum_set_def by simp
qed

theorem repair_one_hot_first_maximum_witness:
  "\<exists>df'. repair demo_cols [raw_sample] = Inr df' \<and> length df' = 1 \<and>
     raw_sample ''gender_Female'' = raw_sample ''gender_Male'' \<and>
     (df' ! 0) ''gender_Female'' = 1 \<and> (df' ! 0) ''gender_Male'' = 0 \<and>
     raw_sample ''smoking_status_smokes'' = - 2 \<and> (df' ! 0) ''smoking_status_smokes'' = 1"
proof -
  let ?g = "[''gender_Female'', ''gender_Male'']"
  let ?s = "[''smoking_status_smokes'']"
  from repair_total[OF demo_cols_ok(2,3,4)] obtain df' where
    r: "repair demo_cols [raw_sample] = Inr df'" by blast
  have gs: "?g \<in> set (one_hot_cols demo_cols)" "?s \<in> set (one_hot_cols demo_cols)"
    by (simp_all add: one_hot_cols_def categorical_def demo_cols_def)
  have v: "raw_sample ''gender_Female'' = 3 / 10" "raw_sample ''gender_Male'' = 3 / 10"
    "raw_sample ''smoking_status_smokes'' = - 2"
    by (simp_all add: raw_sample_def row_of_def demo_cols_def)
  have k: "0 < length [raw_sample]" by simp
  from repair_one_hot_first_maximum[OF demo_cols_ok(1) r k gs(1)] obtain i where
    len: "length df' = 1" and i: "i < length ?g" and
    one: "(df' ! 0) (?g ! i) = 1" and zero: "\<forall>j<length ?g. j \<noteq> i \<longrightarrow> (df' ! 0) (?g ! j) = 0" and
    first: "\<forall>j<i. ([raw_sample] ! 0) (?g ! j) < ([raw_sample] ! 0) (?g ! i)" by auto
  have "i = 0"
  proof (rule ccontr)
    assume "i \<noteq> 0"
    then have "i = 1" using i by simp
    then have "([raw_sample] ! 0) (?g ! 0) < ([raw_sample] ! 0) (?g ! 1)" using first by blast
    then show False using v by simp
  qed
  then have f: "(df' ! 0) ''gender_Female'' = 1" "(df' ! 0) ''gender_Male'' = 0"
    using one zero by auto
  from repair_one_hot_first_maximum[OF demo_cols_ok(1) r k gs(2)] have
    "(df' ! 0) ''smoking_status_smokes'' = 1" by auto
  then show ?thesis using r len f v by simp
qed

section \<open>Properties of the sampling of frames\<close>

lemma pick_shuffle_Nil: "pick_shuffle rs [] = []"
  by (simp add: pick_shuffle.simps)

lemma mset_pick_shuffle: "mset (pick_shuffle rs xs) = mset xs"
proof (induction rs xs rule: pick_shuffle.induct)
  case (1 rs xs)
  show ?case
  proof (cases "xs = []")
    case True
    then show ?thesis by (simp add: pick_shuffle_Nil)
  next
    case False
    define i where "i = (case rs of [] \<Rightarrow> 0 | r # _ \<Rightarrow> r) mod length xs"
    have i: "i < length xs" using False by (simp add: i_def)
    have "mset (pick_shuffle (tl rs) (take i xs @ drop (Suc i) xs)) = mset (take i xs @ drop (Suc i) xs)"
      using "1.IH"[OF False i_def] .
    moreover have "pick_shuffle rs xs = xs ! i # pick_shuffle (tl rs) (take i xs @ drop (Suc i) xs)"
      using False by (subst pick_shuffle.simps) (simp add: i_def Let_def)
    moreover have "mset xs = add_mset (xs ! i) (mset (take i xs @ drop (Suc i) xs))"
      using i by (metis id_take_nth_drop mset.simps(2) mset_append union_mset_add_mset_right)
    ultimately show ?thesis by simp
  qed
qed

lemma length_pick_shuffle: "length (pick_shuffle rs xs) = length xs"
  using mset_pick_shuffle[of rs xs] by (metis size_mset)

lemma set_pick_shuffle: "set (pick_shuffle rs xs) = set xs"
  using mset_pick_shuffle[of rs xs] by (metis set_mset_mset)

lemma filter_pick_shuffle: "length (filter P (pick_shuffle rs xs)) = length (filter P xs)"
proof -
  have "mset (filter P (pick_shuffle rs xs)) = mset (filter P xs)"
    by (simp add: mset_pick_shuffle)
  then show ?thesis by (metis size_mset)
qed

lemma sample_n_Inr:
  assumes "sample_n rs n xs = Inr ys"
  shows "length ys = n \<and> mset ys \<subseteq># mset xs"
proof -
  from assms have n: "n \<le> length xs" and ys: "ys = take n (pick_shuffle rs xs)"
    by (auto simp: sample_n_def split: if_splits)
  have "mset (take n (pick_shuffle rs xs)) \<subseteq># mset (pick_shuffle rs xs)"
    by (metis append_take_drop_id mset_append mset_subset_eq_add_left)
  then show ?thesis using n ys by (simp add: mset_pick_shuffle length_pick_shuffle)
qed

lemma sample_n_filter_all:
  assumes "sample_n rs n (filter P xs) = Inr ys"
  shows "length (filter P ys) = n \<and> (\<forall>y\<in>set ys. P y)"
proof -
  from sample_n_Inr[OF assms] have l: "length ys = n" and s: "mset ys \<subseteq># mset (filter P xs)" by auto
  have "set ys \<subseteq> set (filter P xs)" using s by (metis set_mset_mono set_mset_mset)
  then have "\<forall>y\<in>set ys. P y" by auto
  then show ?thesis using l by simp
qed

lemma rebalance_Inr:
  assumes "rebalance a b c number_died number_survived synth_df = Inr out"
  shows "length (filter (\<lambda>r. stroke r = 0) out) = number_died \<and>
         length (filter (\<lambda>r. stroke r = 1) out) = number_survived \<and>
         length out = number_died + number_survived \<and>
         mset out \<subseteq># mset synth_df"
proof -
  from assms obtain d s where
    d: "sample_n a number_died (filter (\<lambda>r. stroke r = 0) synth_df) = Inr d" and
    s: "sample_n b number_survived (filter (\<lambda>r. stroke r = 1) synth_df) = Inr s" and
    out: "out = pick_shuffle c (d @ s)"
    by (auto simp: rebalance_def split: sum.splits)
  from sample_n_filter_all[OF d] have d0: "length (filter (\<lambda>r. stroke r = 0) d) = number_died"
    "\<forall>y\<in>set d. stroke y = 0" by auto
  from sample_n_filter_all[OF s] have s1: "length (filter (\<lambda>r. stroke r = 1) s) = number_survived"
    "\<forall>y\<in>set s. stroke y = 1" by auto
  have d1: "filter (\<lambda>r. stroke r = 1) d = []" using d0(2) by (auto simp: filter_empty_conv)
  have s0: "filter (\<lambda>r. stroke r = 0) s = []" using s1(2) by (auto simp: filter_empty_conv)
  have ld: "length d = number_died" and ls: "length s = number_survived"
    using sample_n_Inr[OF d] sample_n_Inr[OF s] by auto
  have "mset d \<subseteq># mset (filter (\<lambda>r. stroke r = 0) synth_df)"
    "mset s \<subseteq># mset (filter (\<lambda>r. stroke r = 1) synth_df)"
    using sample_n_Inr[OF d] sample_n_Inr[OF s] by auto
  then have "mset d + mset s \<subseteq># filter_mset (\<lambda>r. stroke r = 0) (mset synth_df) +
      filter_mset (\<lambda>r. stroke r = 1) (mset synth_df)"
    by (simp add: subset_mset.add_mono)
  also have "\<dots> \<subseteq># mset synth_df"
    by (rule mset_subset_eqI) auto
  finally have sub: "mset (d @ s) \<subseteq># mset synth_df" by simp
  show ?thesis
    using d0 s1 d1 s0 ld ls sub by (simp add: out filter_pick_shuffle length_pick_shuffle mset_pick_shuffle)
qed

lemma rebalance_Inl:
  assumes "length (filter (\<lambda>r. stroke r = 0) synth_df) < number_died \<or>
           length (filter (\<lambda>r. stroke r = 1) synth_df) < number_survived"
  shows "rebalance a b c number_died number_survived synth_df = Inl ValueError"
  using assms by (auto simp: rebalance_def sample_n_def split: sum.splits)

lemma rebalance_total:
  assumes "number_died \<le> length (filter (\<lambda>r. stroke r = 0) synth_df)"
          "number_survived \<le> length (filter (\<lambda>r. stroke r = 1) synth_df)"
  shows "\<exists>out. rebalance a b c number_died number_survived synth_df = Inr out"
  using assms by (auto simp: rebalance_def sample_n_def)

section \<open>Properties of make_synthetic_data_smote\<close>

lemma count_list_replicate: "count_list (replicate n x) c = (if x = c then n else 0)"
  by (induction n) auto

lemma class_size:
  assumes "length X = length y"
  shows "length (map fst (filter (\<lambda>(x, l). l = c) (zip X y))) = count_list y c"
  using assms by (induction X y rule: list_induct2) auto

lemma smote_classes_Inr:
  assumes "smote_classes draws X y st = Inr (Xn, yn)"
  shows "yn = concat (map (\<lambda>(c, n). replicate n c) st) \<and> length Xn = length yn"
  using assms
proof (induction st arbitrary: Xn yn)
  case Nil
  then show ?case by simp
next
  case (Cons a st)
  obtain c n where a: "a = (c, n)" by (cases a)
  show ?case
  proof (cases "n = 0")
    case True
    then show ?thesis using Cons a by simp
  next
    case False
    with Cons.prems a obtain Xr yr where
      r: "smote_classes draws X y st = Inr (Xr, yr)" and
      yn: "yn = replicate n c @ yr" and
      Xn: "length Xn = n + length Xr"
      by (auto simp: Let_def make_samples_def split: if_splits sum.splits)
    from Cons.IH[OF r] show ?thesis using yn Xn a by simp
  qed
qed

lemma smote_classes_Inl:
  assumes "length X = length y" "(c, n) \<in> set st" "0 < n" "count_list y c \<le> k_neighbors"
  shows "smote_classes draws X y st = Inl ValueError"
  using assms(2)
proof (induction st)
  case Nil
  then show ?case by simp
next
  case (Cons a st)
  obtain c' n' where a: "a = (c', n')" by (cases a)
  show ?case
  proof (cases "a = (c, n)")
    case True
    then show ?thesis using assms(1,3,4) class_size[OF assms(1), of c] by (simp add: Let_def)
  next
    case False
    then have "smote_classes draws X y st = Inl ValueError" using Cons by auto
    then show ?thesis using a by (simp add: Let_def)
  qed
qed

lemma smote_classes_total:
  assumes "length X = length y" "\<forall>(c, n)\<in>set st. n = 0 \<or> k_neighbors < count_list y c"
  shows "\<exists>Xn yn. smote_classes draws X y st = Inr (Xn, yn)"
  using assms(2)
proof (induction st)
  case Nil
  then show ?case by simp
next
  case (Cons a st)
  obtain c n where a: "a = (c, n)" by (cases a)
  from Cons obtain Xr yr where r: "smote_classes draws X y st = Inr (Xr, yr)" by auto
  show ?case
  proof (cases "n = 0")
    case True
    then show ?thesis using r a by simp
  next
    case False
    then have "k_neighbors < count_list y c" using Cons.prems a by auto
    then show ?thesis using r a False class_size[OF assms(1), of c] by (simp add: Let_def)
  qed
qed

lemma check_sampling_strategy_two:
  "check_sampling_strategy [(0, n0), (1, n1)] y =
     (if count_list y 0 = 0 \<or> count_list y 1 = 0 \<or> n0 < int (count_list y 0) \<or> n1 < int (count_list y 1)
      then Inl ValueError
      else Inr [(0, nat (n0 - int (count_list y 0))), (1, nat (n1 - int (count_list y 1)))])"
  by (auto simp: check_sampling_strategy_def count_list_0_iff)

lemma make_synthetic_data_smote_Inr:
  assumes "make_synthetic_data_smote draws cols X y ns = Inr (Xs, ys)"
  shows "2 \<le> length ns \<and> length X = length y \<and> 0 \<le> ns ! 0 \<and> 0 \<le> ns ! 1 \<and>
         0 < count_list y 0 \<and> 0 < count_list y 1 \<and>
         ys = replicate (nat (ns ! 0)) 0 @ replicate (nat (ns ! 1)) 1 \<and> length Xs = length ys"
proof -
  let ?c0 = "int (count_list y 0)" and ?c1 = "int (count_list y 1)"
  from assms have len: "2 \<le> length ns" by (auto simp: make_synthetic_data_smote_def split: if_splits)
  with assms obtain Xr yr where
    f: "SMOTE_fit_resample draws cols [(0, ns ! 0 + ?c0), (1, ns ! 1 + ?c1)] X y = Inr (Xr, yr)" and
    Xs: "Xs = drop (length X) Xr" and ys: "ys = drop (length y) yr"
    by (auto simp: make_synthetic_data_smote_def Let_def split: sum.splits)
  from f have xy: "length X = length y"
    by (auto simp: SMOTE_fit_resample_def split: if_splits)
  from f obtain st Xn yn where
    st: "check_sampling_strategy [(0, ns ! 0 + ?c0), (1, ns ! 1 + ?c1)] y = Inr st" and
    sm: "smote_classes draws (map (\<lambda>r. map r cols) X) y st = Inr (Xn, yn)" and
    Xr: "Xr = X @ map (row_of cols) Xn" and yr: "yr = y @ yn"
    by (auto simp: SMOTE_fit_resample_def split: if_splits sum.splits)
  from st have ok: "0 < count_list y 0" "0 < count_list y 1" "0 \<le> ns ! 0" "0 \<le> ns ! 1"
    and st': "st = [(0, nat (ns ! 0)), (1, nat (ns ! 1))]"
    by (auto simp: check_sampling_strategy_two split: if_splits)
  from smote_classes_Inr[OF sm] have "yn = replicate (nat (ns ! 0)) 0 @ replicate (nat (ns ! 1)) 1"
    "length Xn = length yn" by (auto simp: st')
  then show ?thesis using len xy ok Xs ys Xr yr by simp
qed

lemma make_synthetic_data_smote_Inl:
  assumes "2 \<le> length ns"
    "count_list y 0 = 0 \<or> count_list y 1 = 0 \<or> ns ! 0 < 0 \<or> ns ! 1 < 0 \<or>
     (0 < ns ! 0 \<and> count_list y 0 \<le> k_neighbors) \<or> (0 < ns ! 1 \<and> count_list y 1 \<le> k_neighbors)"
  shows "make_synthetic_data_smote draws cols X y ns = Inl ValueError"
proof (cases "length X \<noteq> length y \<or> X = []")
  case True
  then show ?thesis using assms(1)
    by (auto simp: make_synthetic_data_smote_def SMOTE_fit_resample_def Let_def)
next
  case False
  then have xy: "length X = length y" by simp
  let ?c0 = "int (count_list y 0)" and ?c1 = "int (count_list y 1)"
  let ?strategy = "[(0, ns ! 0 + ?c0), (1, ns ! 1 + ?c1)]"
  have "SMOTE_fit_resample draws cols ?strategy X y = Inl ValueError"
  proof (cases "count_list y 0 = 0 \<or> count_list y 1 = 0 \<or> ns ! 0 < 0 \<or> ns ! 1 < 0")
    case True
    then have "check_sampling_strategy ?strategy y = Inl ValueError"
      by (auto simp: check_sampling_strategy_two)
    then show ?thesis using False by (simp add: SMOTE_fit_resample_def)
  next
    case ok: False
    then have st: "check_sampling_strategy ?strategy y = Inr [(0, nat (ns ! 0)), (1, nat (ns ! 1))]"
      by (auto simp: check_sampling_strategy_two)
    have xy': "length (map (\<lambda>r. map r cols) X) = length y" using xy by simp
    from assms(2) ok consider
      "0 < ns ! 0 \<and> count_list y 0 \<le> k_neighbors" | "0 < ns ! 1 \<and> count_list y 1 \<le> k_neighbors"
      by blast
    then have "smote_classes draws (map (\<lambda>r. map r cols) X) y [(0, nat (ns ! 0)), (1, nat (ns ! 1))]
         = Inl ValueError"
    proof cases
      case 1
      then show ?thesis by (intro smote_classes_Inl[OF xy', of 0 "nat (ns ! 0)"]) auto
    next
      case 2
      then show ?thesis by (intro smote_classes_Inl[OF xy', of 1 "nat (ns ! 1)"]) auto
    qed
    then show ?thesis using False st by (simp add: SMOTE_fit_resample_def)
  qed
  then show ?thesis using assms(1) by (simp add: make_synthetic_data_smote_def Let_def)
qed

lemma make_synthetic_data_smote_total:
  assumes "2 \<le> length ns" "length X = length y"
    "0 < count_list y 0" "0 < count_list y 1" "0 \<le> ns ! 0" "0 \<le> ns ! 1"
    "ns ! 0 = 0 \<or> k_neighbors < count_list y 0" "ns ! 1 = 0 \<or> k_neighbors < count_list y 1"
  shows "\<exists>Xs ys. make_synthetic_data_smote draws cols X y ns = Inr (Xs, ys)"
proof -
  let ?c0 = "int (count_list y 0)" and ?c1 = "int (count_list y 1)"
  let ?strategy = "[(0, ns ! 0 + ?c0), (1, ns ! 1 + ?c1)]"
  have ne: "X \<noteq> []" using assms(2,3) by auto
  have st: "check_sampling_strategy ?strategy y = Inr [(0, nat (ns ! 0)), (1, nat (ns ! 1))]"
    using assms by (auto simp: check_sampling_strategy_two)
  have xy': "length (map (\<lambda>r. map r cols) X) = length y" using assms(2) by simp
  have "\<exists>Xn yn. smote_classes draws (map (\<lambda>r. map r cols) X) y [(0, nat (ns ! 0)), (1, nat (ns ! 1))]
         = Inr (Xn, yn)"
    using assms by (intro smote_classes_total[OF xy']) auto
  then obtain Xn yn where
    sm: "smote_classes draws (map (\<lambda>r. map r cols) X) y [(0, nat (ns ! 0)), (1, nat (ns ! 1))]
         = Inr (Xn, yn)" by blast
  show ?thesis using assms(1,2) ne st sm
    by (simp add: make_synthetic_data_smote_def SMOTE_fit_resample_def Let_def
        del: smote_classes.simps)
qed

text \<open>
  Claim C1, as the code has it.  Whenever \<^verbatim>\<open>make_synthetic_data_smote\<close> returns, the
  number of synthetic records of class \<open>c\<close> is the total \<open>n_class_c\<close> requested from
  SMOTE minus the number of real records of class \<open>c\<close>, a difference that is never
  negative: it is zero when nothing is requested, and a call with a negative difference
  does not return.  Only records of the classes 0 and 1 are produced.
\<close>

theorem make_synthetic_data_smote_counts:
  assumes "make_synthetic_data_smote draws cols X y number_of_samples = Inr (X_synthetic, y_synthetic)"
  shows "(let n_class_0 = number_of_samples ! 0 + int (count_list y 0);
              n_class_1 = number_of_samples ! 1 + int (count_list y 1)
          in int (count_list y_synthetic 0) = n_class_0 - int (count_list y 0) \<and>
             int (count_list y_synthetic 1) = n_class_1 - int (count_list y 1) \<and>
             int (count_list y 0) \<le> n_class_0 \<and> int (count_list y 1) \<le> n_class_1) \<and>
         length X_synthetic = length y_synthetic \<and>
         length y_synthetic = count_list y_synthetic 0 + count_list y_synthetic 1"
  using make_synthetic_data_smote_Inr[OF assms]
  by (simp add: Let_def count_list_replicate)

theorem make_synthetic_data_smote_counts_witness:
  "\<exists>X_synthetic y_synthetic.
     make_synthetic_data_smote (\<lambda>c j. (j, 1 / 2)) demo_cols
       (replicate 700 (patient 99) @ replicate 300 (patient 101))
       (replicate 700 0 @ replicate 300 1) [700, 300] = Inr (X_synthetic, y_synthetic) \<and>
     count_list y_synthetic 0 = 700 \<and> count_list y_synthetic 1 = 300 \<and>
     length X_synthetic = 1000"
proof -
  let ?X = "replicate 700 (patient 99) @ replicate 300 (patient 101)"
  let ?y = "replicate 700 0 @ replicate 300 (1::int)"
  have c: "count_list ?y 0 = 700" "count_list ?y 1 = 300"
    by (simp_all add: count_list_replicate)
  have "\<exists>Xs ys. make_synthetic_data_smote (\<lambda>c j. (j, 1 / 2)) demo_cols ?X ?y [700, 300] = Inr (Xs, ys)"
    by (rule make_synthetic_data_smote_total) (simp_all add: count_list_replicate k_neighbors_def)
  then obtain Xs ys where
    r: "make_synthetic_data_smote (\<lambda>c j. (j, 1 / 2)) demo_cols ?X ?y [700, 300] = Inr (Xs, ys)"
    by blast
  from make_synthetic_data_smote_counts[OF r] have
    "count_list ys 0 = 700 \<and> count_list ys 1 = 300 \<and> length Xs = 1000"
    by (simp add: c Let_def)
  then show ?thesis using r by blast
qed

text \<open>
  With one real record per class and totals \<open>{0: 0, 1: 1}\<close> the difference for class 0
  is \<open>-1\<close>; the call raises instead of returning no record for the class.
\<close>

theorem make_synthetic_data_smote_negative_counterexample:
  "make_synthetic_data_smote (\<lambda>c j. (j, 1 / 2)) demo_cols [patient 99, patient 101] [0, 1] [- 1, 0]
     = Inl ValueError"
  by (rule make_synthetic_data_smote_Inl) simp_all

text \<open>
  Claim C9, as the code has it.  \<^verbatim>\<open>make_synthetic_data_smote\<close> raises whenever one
  of the classes 0 and 1 has no real record, or has at most \<^verbatim>\<open>k_neighbors\<close> = 5 real
  records while at least one synthetic record is requested for it; so a class with
  exactly one real record raises as soon as a synthetic record is requested for it.
\<close>

theorem make_synthetic_data_smote_raises:
  assumes "2 \<le> length number_of_samples"
    "count_list y 0 = 0 \<or> count_list y 1 = 0 \<or>
     (0 < number_of_samples ! 0 \<and> count_list y 0 \<le> k_neighbors) \<or>
     (0 < number_of_samples ! 1 \<and> count_list y 1 \<le> k_neighbors)"
  shows "make_synthetic_data_smote draws cols X y number_of_samples = Inl ValueError"
  using assms by (intro make_synthetic_data_smote_Inl) auto

theorem make_synthetic_data_smote_raises_witness:
  "count_list [0, 1, 0, 0, 0, 0, 0::int] 1 = 1 \<and>
   make_synthetic_data_smote (\<lambda>c j. (j, 1 / 2)) demo_cols
     [patient 99, patient 101, patient 99, patient 100, patient 98, patient 97, patient 96]
     [0, 1, 0, 0, 0, 0, 0] [12, 2] = Inl ValueError"
proof -
  have "make_synthetic_data_smote (\<lambda>c j. (j, 1 / 2)) demo_cols
     [patient 99, patient 101, patient 99, patient 100, patient 98, patient 97, patient 96]
     [0, 1, 0, 0, 0, 0, 0] [12, 2] = Inl ValueError"
    by (rule make_synthetic_data_smote_raises) (simp_all add: k_neighbors_def)
  then show ?thesis by simp
qed

text \<open>
  Class 1 has exactly one real record and no synthetic record is requested for it: the
  call returns twelve records of class 0 and none of class 1, without an error.
\<close>

theorem make_synthetic_data_smote_silent_counterexample:
  "count_list [0, 1, 0, 0, 0, 0, 0::int] 1 = 1 \<and>
   (\<exists>X_synthetic. make_synthetic_data_smote (\<lambda>c j. (j, 1 / 2)) demo_cols
     [patient 99, patient 101, patient 99, patient 100, patient 98, patient 97, patient 96]
     [0, 1, 0, 0, 0, 0, 0] [12, 0] = Inr (X_synthetic, replicate 12 0))"
proof -
  let ?X = "[patient 99, patient 101, patient 99, patient 100, patient 98, patient 97, patient 96]"
  let ?y = "[0, 1, 0, 0, 0, 0, 0::int]"
  have "\<exists>Xs ys. make_synthetic_data_smote (\<lambda>c j. (j, 1 / 2)) demo_cols ?X ?y [12, 0] = Inr (Xs, ys)"
    by (rule make_synthetic_data_smote_total) (simp_all add: k_neighbors_def)
  then obtain Xs ys where
    r: "make_synthetic_data_smote (\<lambda>c j. (j, 1 / 2)) demo_cols ?X ?y [12, 0] = Inr (Xs, ys)"
    by blast
  from make_synthetic_data_smote_Inr[OF r] have "ys = replicate 12 0" by simp
  then show ?thesis using r by simp
qed

section \<open>Properties of the rebalancing and of the split\<close>

text \<open>
  Claim C8.  When the pool of a class has fewer rows than the requested number the
  sampling raises; otherwise the result holds exactly \<^verbatim>\<open>number_died\<close> rows of class 0
  and exactly \<^verbatim>\<open>number_survived\<close> rows of class 1 and nothing else, and its rows are
  drawn from the pool without replacement (as a multiset it is contained in the pool).
\<close>

theorem rebalance_exact_counts:
  "(if length (filter (\<lambda>r. stroke r = 0) synth_df) < number_died \<or>
       length (filter (\<lambda>r. stroke r = 1) synth_df) < number_survived
    then rebalance rs_died rs_survived rs_shuffle number_died number_survived synth_df = Inl ValueError
    else \<exists>out. rebalance rs_died rs_survived rs_shuffle number_died number_survived synth_df = Inr out \<and>
           length (filter (\<lambda>r. stroke r = 0) out) = number_died \<and>
           length (filter (\<lambda>r. stroke r = 1) out) = number_survived \<and>
           length out = number_died + number_survived \<and>
           mset out \<subseteq># mset synth_df)"
proof (cases "length (filter (\<lambda>r. stroke r = 0) synth_df) < number_died \<or>
       length (filter (\<lambda>r. stroke r = 1) synth_df) < number_survived")
  case True
  then show ?thesis using rebalance_Inl[OF True] by simp
next
  case False
  then obtain out where
    "rebalance rs_died rs_survived rs_shuffle number_died number_survived synth_df = Inr out"
    using rebalance_total[of number_died synth_df number_survived rs_died rs_survived rs_shuffle]
    by auto
  then show ?thesis using False rebalance_Inr by auto
qed

lemma pick_shuffle_Cons:
  "pick_shuffle rs (x # xs) =
     (let i = (case rs of [] \<Rightarrow> 0 | r # _ \<Rightarrow> r) mod Suc (length xs)
      in (x # xs) ! i # pick_shuffle (tl rs) (take i (x # xs) @ drop (Suc i) (x # xs)))"
  by (subst pick_shuffle.simps) simp

theorem rebalance_exact_counts_witness:
  "(\<exists>out. rebalance [1] [] [1, 0] 1 1
      [\<lparr>features = patient 100, stroke = 0, distance_to_closest_real = 1, closest_X_real_row_index = 0\<rparr>,
       \<lparr>features = patient 98, stroke = 0, distance_to_closest_real = 1, closest_X_real_row_index = 0\<rparr>,
       \<lparr>features = patient 102, stroke = 1, distance_to_closest_real = 1, closest_X_real_row_index = 1\<rparr>]
      = Inr out \<and> length (filter (\<lambda>r. stroke r = 0) out) = 1 \<and>
        length (filter (\<lambda>r. stroke r = 1) out) = 1 \<and> length out = 2) \<and>
   rebalance [1] [] [1, 0] 3 1
      [\<lparr>features = patient 100, stroke = 0, distance_to_closest_real = 1, closest_X_real_row_index = 0\<rparr>,
       \<lparr>features = patient 98, stroke = 0, distance_to_closest_real = 1, closest_X_real_row_index = 0\<rparr>,
       \<lparr>features = patient 102, stroke = 1, distance_to_closest_real = 1, closest_X_real_row_index = 1\<rparr>]
      = Inl ValueError"
proof -
  let ?df = "[\<lparr>features = patient 100, stroke = 0, distance_to_closest_real = 1, closest_X_real_row_index = 0\<rparr>,
       \<lparr>features = patient 98, stroke = 0, distance_to_closest_real = 1, closest_X_real_row_index = 0\<rparr>,
       \<lparr>features = patient 102, stroke = 1, distance_to_closest_real = 1, closest_X_real_row_index = 1\<rparr>]"
  show ?thesis
    using rebalance_exact_counts[of ?df 1 1 "[1]" "[]" "[1, 0]"]
      rebalance_exact_counts[of ?df 3 1 "[1]" "[]" "[1, 0]"]
    by auto
qed

lemma train_test_split_partition:
  assumes "train_test_split rs X y = Inr (X_train, X_test, y_train, y_test)"
  shows "mset (y_train @ y_test) = mset y \<and> length X_train = length y_train \<and>
         length X_test = length y_test \<and> length y_train + length y_test = length y \<and>
         length y_test = nat \<lceil>real (length y) * (1 / 5)\<rceil> \<and> 0 < length y_train"
proof -
  define n where "n = length X"
  define n_test where "n_test = nat \<lceil>real n * (1 / 5)\<rceil>"
  define perm where "perm = pick_shuffle rs [0..<n]"
  from assms have xy: "length X = length y" and ntr: "n - n_test \<noteq> 0"
    by (auto simp: train_test_split_def Let_def n_def n_test_def split: if_splits)
  from assms xy ntr have
    ytr: "y_train = map (\<lambda>i. y ! i) (take (n - n_test) (drop n_test perm))" and
    yte: "y_test = map (\<lambda>i. y ! i) (take n_test perm)" and
    xtr: "X_train = map (\<lambda>i. X ! i) (take (n - n_test) (drop n_test perm))" and
    xte: "X_test = map (\<lambda>i. X ! i) (take n_test perm)"
    by (auto simp: train_test_split_def Let_def n_def n_test_def perm_def split: if_splits)
  have lp: "length perm = n" by (simp add: perm_def length_pick_shuffle)
  have mp: "mset perm = mset [0..<n]" by (simp add: perm_def mset_pick_shuffle)
  have tr: "take (n - n_test) (drop n_test perm) = drop n_test perm" using lp by simp
  have "mset (take n_test perm) + mset (drop n_test perm) = mset perm"
    by (metis append_take_drop_id mset_append)
  then have "image_mset (\<lambda>i. y ! i) (mset (take n_test perm)) +
      image_mset (\<lambda>i. y ! i) (mset (drop n_test perm)) = image_mset (\<lambda>i. y ! i) (mset perm)"
    by (metis image_mset_union)
  then have "mset (y_train @ y_test) = image_mset (\<lambda>i. y ! i) (mset perm)"
    unfolding ytr yte tr by (simp add: add.commute)
  also have "\<dots> = mset (map (\<lambda>i. y ! i) [0..<n])" unfolding mp by simp
  also have "\<dots> = mset y" using xy by (simp add: n_def map_nth)
  finally have 1: "mset (y_train @ y_test) = mset y" .
  have le: "n_test \<le> n" using ntr by arith
  show ?thesis using 1 ytr yte xtr xte tr lp le ntr xy
    by (simp add: n_def n_test_def)
qed

lemma train_test_split_counts:
  assumes "train_test_split rs X y = Inr (X_train, X_test, y_train, y_test)"
  shows "count_list y c = count_list y_train c + count_list y_test c"
proof -
  from train_test_split_partition[OF assms] have "mset (y_train @ y_test) = mset y" by simp
  then have "count (mset y) c = count (mset (y_train @ y_test)) c" by simp
  then show ?thesis by (simp add: count_mset)
qed

section \<open>A run of the script on the example data\<close>

lemma pick_shuffle_id: "pick_shuffle [] xs = xs"
proof (induction xs)
  case Nil
  then show ?case by (simp add: pick_shuffle_Nil)
next
  case (Cons x xs)
  then show ?case by (simp add: pick_shuffle_Cons)
qed

lemma patient_values: "map (patient g) demo_cols = [40, g, 25, 0, 0, 1, 0, 1, 1, 1, 1]"
  by (simp add: patient_def row_of_def demo_cols_def)

lemma patient_at:
  "patient g ''age'' = 40" "patient g ''avg_glucose_level'' = g" "patient g ''bmi'' = 25"
  "patient g ''hypertension'' = 0" "patient g ''heart_disease'' = 0" "patient g ''ever_married'' = 1"
  "patient g ''gender_Female'' = 0" "patient g ''gender_Male'' = 1" "patient g ''work_type_Private'' = 1"
  "patient g ''residence_type_Urban'' = 1" "patient g ''smoking_status_smokes'' = 1"
  by (simp_all add: patient_def row_of_def demo_cols_def)

lemma map_const_upt: "map (f \<circ> (\<lambda>j. c)) [0..<n] = replicate n (f c)"
  by (simp add: map_replicate_const comp_def)

lemma demo_smote: "make_synthetic_data_smote (\<lambda>c j. (2, 1 / 4)) demo_cols
   [patient 99, patient 99, patient 99, patient 101, patient 101,
      patient 101, patient 99, patient 99, patient 99, patient 101,
      patient 101, patient 101] [0, 0, 0, 0, 0, 0, 1, 1, 1, 1, 1, 1] [12, 12] =
   Inr (replicate 12 (patient (199 / 2)) @ replicate 12 (patient (199 / 2)),
        replicate 12 0 @ replicate 12 1)"
  by (simp add: make_synthetic_data_smote_def SMOTE_fit_resample_def check_sampling_strategy_two
      patient_values k_neighbors_def Let_def kneighbors_def euclidean_def make_samples_def
      map_const_upt patient_def[symmetric])

lemma demo_std1: "standardise_data demo_cols
   [patient 99, patient 99, patient 99, patient 101, patient 101,
      patient 101, patient 99, patient 99, patient 99, patient 101,
      patient 101, patient 101] [patient 99, patient 101, patient 99] = 
    Inr ([[0, - 1, 0, 0, 0, 0, 0, 0, 0, 0, 0],
          [0, - 1, 0, 0, 0, 0, 0, 0, 0, 0, 0],
          [0, - 1, 0, 0, 0, 0, 0, 0, 0, 0, 0],
          [0, 1, 0, 0, 0, 0, 0, 0, 0, 0, 0],
          [0, 1, 0, 0, 0, 0, 0, 0, 0, 0, 0],
          [0, 1, 0, 0, 0, 0, 0, 0, 0, 0, 0],
          [0, - 1, 0, 0, 0, 0, 0, 0, 0, 0, 0],
          [0, - 1, 0, 0, 0, 0, 0, 0, 0, 0, 0],
          [0, - 1, 0, 0, 0, 0, 0, 0, 0, 0, 0],
          [0, 1, 0, 0, 0, 0, 0, 0, 0, 0, 0],
          [0, 1, 0, 0, 0, 0, 0, 0, 0, 0, 0],
          [0, 1, 0, 0, 0, 0, 0, 0, 0, 0, 0]],
         [[0, - 1, 0, 0, 0, 0, 0, 0, 0, 0, 0],
          [0, 1, 0, 0, 0, 0, 0, 0, 0, 0, 0],
          [0, - 1, 0, 0, 0, 0, 0, 0, 0, 0, 0]])"
  by (simp add: standardise_data_def StandardScaler_fit_def StandardScaler_transform_def
      np_mean_def np_var_def handle_zeros_in_scale_def patient_at demo_cols_def)

lemma repair_fix:
  assumes "distinct X" "set integer_cols \<subseteq> set X" "set binary_cols \<subseteq> set X"
    "\<forall>r\<in>set df. (\<forall>g\<in>set (one_hot_cols X). one_hot_valid g r) \<and>
        (\<forall>c\<in>set integer_cols. round_half_even (r c) = r c) \<and>
        (\<forall>c\<in>set binary_cols. r c = 0 \<or> r c = 1)"
  shows "repair X df = Inr df"
proof -
  have 1: "one_hot_groups (one_hot_cols X) df = Inr df"
    using assms(4) one_hot_cols_distinct[OF assms(1)] by (intro one_hot_groups_fix) blast
  have 2: "round_integer_cols X integer_cols df = Inr df"
    using assms(2,4) by (intro round_integer_cols_fix) auto
  have 3: "clip_binary_cols X binary_cols df = Inr df"
    using assms(3,4) by (intro clip_binary_cols_fix) auto
  show ?thesis using 1 2 3 by (simp add: repair_def)
qed

lemma patient_repaired:
  "(\<forall>g\<in>set (one_hot_cols demo_cols). one_hot_valid g (patient v)) \<and>
   (\<forall>c\<in>set integer_cols. round_half_even (patient v c) = patient v c) \<and>
   (\<forall>c\<in>set binary_cols. patient v c = 0 \<or> patient v c = 1)"
proof -
  have "one_hot_valid [''gender_Female'', ''gender_Male''] (patient v)"
    unfolding one_hot_valid_def by (rule bexI[of _ 1]) (auto simp: patient_at less_Suc_eq)
  moreover have "one_hot_valid [''work_type_Private''] (patient v)"
    "one_hot_valid [''residence_type_Urban''] (patient v)"
    "one_hot_valid [''smoking_status_smokes''] (patient v)"
    unfolding one_hot_valid_def by (auto simp: patient_at)
  ultimately have "\<forall>g\<in>set (one_hot_cols demo_cols). one_hot_valid g (patient v)"
    by (simp add: one_hot_cols_def categorical_def demo_cols_def)
  moreover have "round_half_even 40 = 40" "round_half_even 25 = 25"
    using round_half_even_of_int[of 40] round_half_even_of_int[of 25] by simp_all
  ultimately show ?thesis by (simp add: integer_cols_def binary_cols_def patient_at)
qed

lemma demo_build:
  "build_synth_df [] demo_cols (replicate 12 (patient (199 / 2)) @ replicate 12 (patient (199 / 2)))
     (replicate 12 0 @ replicate 12 1) =
   Inr (replicate 12 (patient (199 / 2), 0) @ replicate 12 (patient (199 / 2), 1))"
proof -
  have "repair demo_cols (replicate 12 (patient (199 / 2)) @ replicate 12 (patient (199 / 2))) =
      Inr (replicate 12 (patient (199 / 2)) @ replicate 12 (patient (199 / 2)))"
    using patient_repaired[of "199 / 2"] by (intro repair_fix demo_cols_ok) auto
  then show ?thesis by (simp add: build_synth_df_def pick_shuffle_id)
qed

lemma sqrt_quarters: "sqrt (1 / 4) = 1 / 2" "sqrt (9 / 4) = 3 / 2"
  by (rule real_sqrt_unique; simp add: power2_eq_square)+

lemma demo_closest: "closest ([[0, - 1, 0, 0, 0, 0, 0, 0, 0, 0, 0],
          [0, - 1, 0, 0, 0, 0, 0, 0, 0, 0, 0],
          [0, - 1, 0, 0, 0, 0, 0, 0, 0, 0, 0],
          [0, 1, 0, 0, 0, 0, 0, 0, 0, 0, 0],
          [0, 1, 0, 0, 0, 0, 0, 0, 0, 0, 0],
          [0, 1, 0, 0, 0, 0, 0, 0, 0, 0, 0],
          [0, - 1, 0, 0, 0, 0, 0, 0, 0, 0, 0],
          [0, - 1, 0, 0, 0, 0, 0, 0, 0, 0, 0],
          [0, - 1, 0, 0, 0, 0, 0, 0, 0, 0, 0],
          [0, 1, 0, 0, 0, 0, 0, 0, 0, 0, 0],
          [0, 1, 0, 0, 0, 0, 0, 0, 0, 0, 0],
          [0, 1, 0, 0, 0, 0, 0, 0, 0, 0, 0],
          [0, - 1, 0, 0, 0, 0, 0, 0, 0, 0, 0],
          [0, 1, 0, 0, 0, 0, 0, 0, 0, 0, 0],
          [0, - 1, 0, 0, 0, 0, 0, 0, 0, 0, 0]]) [0, - (1 / 2), 0, 0, 0, 0, 0, 0, 0, 0, 0] = (1 / 2, 0)"
  by (simp add: closest_def euclidean_def sqrt_quarters Let_def)

lemma demo_std2: "standardise_data demo_cols
   [patient 99, patient 99, patient 99, patient 101, patient 101,
      patient 101, patient 99, patient 99, patient 99, patient 101,
      patient 101, patient 101] (replicate 12 (patient (199 / 2)) @ replicate 12 (patient (199 / 2))) =
    Inr ([[0, - 1, 0, 0, 0, 0, 0, 0, 0, 0, 0],
          [0, - 1, 0, 0, 0, 0, 0, 0, 0, 0, 0],
          [0, - 1, 0, 0, 0, 0, 0, 0, 0, 0, 0],
          [0, 1, 0, 0, 0, 0, 0, 0, 0, 0, 0],
          [0, 1, 0, 0, 0, 0, 0, 0, 0, 0, 0],
          [0, 1, 0, 0, 0, 0, 0, 0, 0, 0, 0],
          [0, - 1, 0, 0, 0, 0, 0, 0, 0, 0, 0],
          [0, - 1, 0, 0, 0, 0, 0, 0, 0, 0, 0],
          [0, - 1, 0, 0, 0, 0, 0, 0, 0, 0, 0],
          [0, 1, 0, 0, 0, 0, 0, 0, 0, 0, 0],
          [0, 1, 0, 0, 0, 0, 0, 0, 0, 0, 0],
          [0, 1, 0, 0, 0, 0, 0, 0, 0, 0, 0]],
         replicate 12 [0, - (1 / 2), 0, 0, 0, 0, 0, 0, 0, 0, 0] @
         replicate 12 [0, - (1 / 2), 0, 0, 0, 0, 0, 0, 0, 0, 0])"
  by (simp add: standardise_data_def StandardScaler_fit_def StandardScaler_transform_def
      np_mean_def np_var_def handle_zeros_in_scale_def patient_at demo_cols_def)

lemma demo_dist: "distances_to_real demo_cols
   [patient 99, patient 99, patient 99, patient 101, patient 101,
      patient 101, patient 99, patient 99, patient 99, patient 101,
      patient 101, patient 101] [patient 99, patient 101, patient 99]
   (replicate 12 (patient (199 / 2)) @ replicate 12 (patient (199 / 2)))
   (replicate 12 (patient (199 / 2), 0) @ replicate 12 (patient (199 / 2), 1)) =
   Inr (replicate 12 \<lparr>features = patient (199 / 2), stroke = 0,
            distance_to_closest_real = 1 / 2, closest_X_real_row_index = 0\<rparr> @
        replicate 12 \<lparr>features = patient (199 / 2), stroke = 1,
            distance_to_closest_real = 1 / 2, closest_X_real_row_index = 0\<rparr>)"
  by (simp add: distances_to_real_def demo_std1 demo_std2 NearestNeighbors_kneighbors_def
      demo_closest store_distances_def)

lemma demo_pool: "filtered_pool [] [] demo_cols
   [patient 99, patient 99, patient 99, patient 101, patient 101,
      patient 101, patient 99, patient 99, patient 99, patient 101,
      patient 101, patient 101] [patient 99, patient 101, patient 99]
   (replicate 12 (patient (199 / 2)) @ replicate 12 (patient (199 / 2)))
   (replicate 12 0 @ replicate 12 1) =
   Inr (replicate 12 \<lparr>features = patient (199 / 2), stroke = 0,
            distance_to_closest_real = 1 / 2, closest_X_real_row_index = 0\<rparr> @
        replicate 9 \<lparr>features = patient (199 / 2), stroke = 1,
            distance_to_closest_real = 1 / 2, closest_X_real_row_index = 0\<rparr>)"
proof -
  let ?r0 = "\<lparr>features = patient (199 / 2), stroke = 0,
            distance_to_closest_real = 1 / 2, closest_X_real_row_index = 0\<rparr>"
  let ?r1 = "\<lparr>features = patient (199 / 2), stroke = 1,
            distance_to_closest_real = 1 / 2, closest_X_real_row_index = 0\<rparr>"
  have rm: "remove_identical (replicate 12 ?r0 @ replicate 12 ?r1) = replicate 12 ?r0 @ replicate 12 ?r1"
    by (simp add: remove_identical_def)
  have "sorted (map (\<lambda>r. - distance_to_closest_real r) (replicate 12 ?r0 @ replicate 12 ?r1))"
    by (simp add: sorted_append)
  then have so: "sort_by_distance (replicate 12 ?r0 @ replicate 12 ?r1) = replicate 12 ?r0 @ replicate 12 ?r1"
    unfolding sort_by_distance_def by (rule sort_key_id_if_sorted)
  have nk: "number_to_keep 24 = 21" by (simp add: number_to_keep_def proportion_to_remove_def)
  have li: "limit_data (replicate 12 ?r0 @ replicate 12 ?r1) = replicate 12 ?r0 @ replicate 9 ?r1"
    by (simp add: limit_data_def so nk Let_def)
  show ?thesis
    by (simp add: filtered_pool_def demo_build demo_dist rm trim_and_shuffle_def li pick_shuffle_id)
qed

lemma demo_rebalance: "rebalance [] [] [] 8 7
   (replicate 12 \<lparr>features = patient (199 / 2), stroke = 0,
            distance_to_closest_real = 1 / 2, closest_X_real_row_index = 0\<rparr> @
        replicate 9 \<lparr>features = patient (199 / 2), stroke = 1,
            distance_to_closest_real = 1 / 2, closest_X_real_row_index = 0\<rparr>) =
   Inr (replicate 8 \<lparr>features = patient (199 / 2), stroke = 0,
            distance_to_closest_real = 1 / 2, closest_X_real_row_index = 0\<rparr> @
        replicate 7 \<lparr>features = patient (199 / 2), stroke = 1,
            distance_to_closest_real = 1 / 2, closest_X_real_row_index = 0\<rparr>)"
  by (simp add: rebalance_def sample_n_def pick_shuffle_id)

lemma demo_training: "synth_training_set demo_cols
   (replicate 8 \<lparr>features = patient (199 / 2), stroke = 0,
            distance_to_closest_real = 1 / 2, closest_X_real_row_index = 0\<rparr> @
        replicate 7 \<lparr>features = patient (199 / 2), stroke = 1,
            distance_to_closest_real = 1 / 2, closest_X_real_row_index = 0\<rparr>)
   [patient 99, patient 101, patient 99] =
   Inr (replicate 8 [0, 0, 0, 0, 0, 0, 0, 0, 0, 0, 0] @
        replicate 7 [0, 0, 0, 0, 0, 0, 0, 0, 0, 0, 0],
        replicate 8 0 @ replicate 7 1,
        [[0, - (1 / 2), 0, 0, 0, 0, 0, 0, 0, 0, 0],
         [0, 3 / 2, 0, 0, 0, 0, 0, 0, 0, 0, 0],
         [0, - (1 / 2), 0, 0, 0, 0, 0, 0, 0, 0, 0]])"
  by (simp add: synth_training_set_def standardise_data_def StandardScaler_fit_def
      StandardScaler_transform_def np_mean_def np_var_def handle_zeros_in_scale_def patient_at
      demo_cols_def Let_def sum_list_replicate)

lemma demo_split: "train_test_split [] demo_X demo_y =
  Inr ([patient 99, patient 99, patient 99, patient 101, patient 101,
        patient 101, patient 99, patient 99, patient 99, patient 101,
        patient 101, patient 101],
       [patient 99, patient 101, patient 99],
       [0, 0, 0, 0, 0, 0, 1, 1, 1, 1, 1, 1], [0, 0, 1])"
  by (simp add: train_test_split_def demo_X_def demo_y_def pick_shuffle_id Let_def)

lemma demo_req: "required_smote_count [0, 0, 0, 0, 0, 0, 1, 1, 1, 1, 1, 1] = [12, 12]"
  by (simp add: required_smote_count_def)

lemma demo_counts: "count_list demo_y 0 = 8" "count_list demo_y 1 = 7"
  by (simp_all add: demo_y_def)

lemma demo_script:
  "script demo_rnd demo_cols demo_X demo_y =
   Inr \<lparr>model_X = [[0, - 1, 0, 0, 0, 0, 0, 0, 0, 0, 0],
          [0, - 1, 0, 0, 0, 0, 0, 0, 0, 0, 0],
          [0, - 1, 0, 0, 0, 0, 0, 0, 0, 0, 0],
          [0, 1, 0, 0, 0, 0, 0, 0, 0, 0, 0],
          [0, 1, 0, 0, 0, 0, 0, 0, 0, 0, 0],
          [0, 1, 0, 0, 0, 0, 0, 0, 0, 0, 0],
          [0, - 1, 0, 0, 0, 0, 0, 0, 0, 0, 0],
          [0, - 1, 0, 0, 0, 0, 0, 0, 0, 0, 0],
          [0, - 1, 0, 0, 0, 0, 0, 0, 0, 0, 0],
          [0, 1, 0, 0, 0, 0, 0, 0, 0, 0, 0],
          [0, 1, 0, 0, 0, 0, 0, 0, 0, 0, 0],
          [0, 1, 0, 0, 0, 0, 0, 0, 0, 0, 0]],
        model_y = [0, 0, 0, 0, 0, 0, 1, 1, 1, 1, 1, 1],
        model_synth_X = replicate 8 [0, 0, 0, 0, 0, 0, 0, 0, 0, 0, 0] @
                        replicate 7 [0, 0, 0, 0, 0, 0, 0, 0, 0, 0, 0],
        model_synth_y = replicate 8 0 @ replicate 7 1,
        final_X_test_std = [[0, - (1 / 2), 0, 0, 0, 0, 0, 0, 0, 0, 0],
                            [0, 3 / 2, 0, 0, 0, 0, 0, 0, 0, 0, 0],
                            [0, - (1 / 2), 0, 0, 0, 0, 0, 0, 0, 0, 0]],
        final_synth_df =
          replicate 8 \<lparr>features = patient (199 / 2), stroke = 0,
            distance_to_closest_real = 1 / 2, closest_X_real_row_index = 0\<rparr> @
          replicate 7 \<lparr>features = patient (199 / 2), stroke = 1,
            distance_to_closest_real = 1 / 2, closest_X_real_row_index = 0\<rparr>\<rparr>"
  by (simp add: script_def demo_rnd_def demo_split demo_std1 demo_req demo_smote demo_pool
      demo_counts demo_rebalance demo_training)

section \<open>Properties of the whole script\<close>

lemma script_Inr:
  assumes "script rnd cols X y = Inr res"
  shows "\<exists>X_train X_test y_train y_test X_train_std X_test_std X_synthetic y_synthetic pool.
    train_test_split (split_rs rnd) X y = Inr (X_train, X_test, y_train, y_test) \<and>
    standardise_data cols X_train X_test = Inr (X_train_std, X_test_std) \<and>
    make_synthetic_data_smote (smote_draws rnd) cols X_train y_train (required_smote_count y_train)
      = Inr (X_synthetic, y_synthetic) \<and>
    filtered_pool (shuffle_188_rs rnd) (shuffle_245_rs rnd) cols X_train X_test X_synthetic y_synthetic
      = Inr pool \<and>
    rebalance (sample_249_rs rnd) (sample_253_rs rnd) (shuffle_257_rs rnd)
      (count_list y 0) (count_list y 1) pool = Inr (final_synth_df res) \<and>
    synth_training_set cols (final_synth_df res) X_test
      = Inr (model_synth_X res, model_synth_y res, final_X_test_std res) \<and>
    model_X res = X_train_std \<and> model_y res = y_train"
  using assms unfolding script_def Let_def
  by (auto split: sum.splits prod.splits)

lemma synth_training_set_Inr:
  assumes "synth_training_set cols synth_df X_test = Inr (X_synth_std, y_synth, X_test_std)"
  shows "\<exists>sc. StandardScaler_fit cols (map features synth_df) = Inr sc \<and>
           StandardScaler_transform sc cols (map features synth_df) = Inr X_synth_std \<and>
           StandardScaler_transform sc cols X_test = Inr X_test_std \<and>
           y_synth = map stroke synth_df"
  using assms unfolding synth_training_set_def standardise_data_def Let_def
  by (auto split: sum.splits)

text \<open>
  Claim C10.  In a run of the script that reaches the second classifier, the rebalanced
  synthetic frame holds as many rows of each class as the whole real data set does, that
  is, as the training and the test partition of the split hold together; the numbers
  come from the labels before the split, not from the training labels.
\<close>

theorem script_rebalances_to_whole_data:
  assumes "script rnd X_col_names X y = Inr res"
  shows "\<exists>X_train X_test y_train y_test.
     train_test_split (split_rs rnd) X y = Inr (X_train, X_test, y_train, y_test) \<and>
     model_y res = y_train \<and>
     length (filter (\<lambda>r. stroke r = 0) (final_synth_df res)) = count_list y 0 \<and>
     length (filter (\<lambda>r. stroke r = 1) (final_synth_df res)) = count_list y 1 \<and>
     count_list y 0 = count_list y_train 0 + count_list y_test 0 \<and>
     count_list y 1 = count_list y_train 1 + count_list y_test 1"
proof -
  from script_Inr[OF assms] obtain X_train X_test y_train y_test pool where
    sp: "train_test_split (split_rs rnd) X y = Inr (X_train, X_test, y_train, y_test)" and
    rb: "rebalance (sample_249_rs rnd) (sample_253_rs rnd) (shuffle_257_rs rnd)
      (count_list y 0) (count_list y 1) pool = Inr (final_synth_df res)" and
    my: "model_y res = y_train" by blast
  from rebalance_Inr[OF rb] train_test_split_counts[OF sp] sp my show ?thesis by blast
qed

theorem script_rebalances_to_whole_data_witness:
  "\<exists>res. script demo_rnd demo_cols demo_X demo_y = Inr res \<and>
     length (filter (\<lambda>r. stroke r = 0) (final_synth_df res)) = 8 \<and>
     length (filter (\<lambda>r. stroke r = 1) (final_synth_df res)) = 7 \<and>
     count_list demo_y 0 = 8 \<and> count_list demo_y 1 = 7 \<and>
     count_list (model_y res) 0 = 6 \<and> count_list (model_y res) 1 = 6"
proof -
  obtain res where r: "script demo_rnd demo_cols demo_X demo_y = Inr res"
    using demo_script by blast
  from script_rebalances_to_whole_data[OF r] obtain X_train X_test y_train y_test where
    sp: "train_test_split (split_rs demo_rnd) demo_X demo_y = Inr (X_train, X_test, y_train, y_test)" and
    my: "model_y res = y_train" and
    c: "length (filter (\<lambda>r. stroke r = 0) (final_synth_df res)) = count_list demo_y 0"
       "length (filter (\<lambda>r. stroke r = 1) (final_synth_df res)) = count_list demo_y 1"
    by blast
  from sp have "y_train = [0, 0, 0, 0, 0, 0, 1, 1, 1, 1, 1, 1]"
    by (simp add: demo_rnd_def demo_split)
  then show ?thesis using r my c by (simp add: demo_counts)
qed

text \<open>
  Claim C2, as the code has it.  In a run of the script the second classifier is fitted
  on the features of the rebalanced synthetic frame standardised by a scaler fitted on
  those synthetic features themselves, and the test features it then predicts are
  standardised by the same scaler.
\<close>

theorem script_model_synth_scaler:
  assumes "script rnd X_col_names X y = Inr res"
  shows "\<exists>X_train X_test y_train y_test sc.
     train_test_split (split_rs rnd) X y = Inr (X_train, X_test, y_train, y_test) \<and>
     StandardScaler_fit X_col_names (map features (final_synth_df res)) = Inr sc \<and>
     StandardScaler_transform sc X_col_names (map features (final_synth_df res))
       = Inr (model_synth_X res) \<and>
     StandardScaler_transform sc X_col_names X_test = Inr (final_X_test_std res) \<and>
     model_synth_y res = map stroke (final_synth_df res)"
proof -
  from script_Inr[OF assms] obtain X_train X_test y_train y_test where
    sp: "train_test_split (split_rs rnd) X y = Inr (X_train, X_test, y_train, y_test)" and
    ts: "synth_training_set X_col_names (final_synth_df res) X_test
      = Inr (model_synth_X res, model_synth_y res, final_X_test_std res)" by blast
  from synth_training_set_Inr[OF ts] sp show ?thesis by blast
qed

theorem script_model_synth_scaler_witness:
  "\<exists>res sc. script demo_rnd demo_cols demo_X demo_y = Inr res \<and>
     StandardScaler_fit demo_cols (map features (final_synth_df res)) = Inr sc \<and>
     StandardScaler_transform sc demo_cols (map features (final_synth_df res))
       = Inr (model_synth_X res) \<and>
     sc_mean sc = [40, 199 / 2, 25, 0, 0, 1, 0, 1, 1, 1, 1]"
proof -
  obtain res where r: "script demo_rnd demo_cols demo_X demo_y = Inr res"
    and f: "final_synth_df res = replicate 8 \<lparr>features = patient (199 / 2), stroke = 0,
            distance_to_closest_real = 1 / 2, closest_X_real_row_index = 0\<rparr> @
          replicate 7 \<lparr>features = patient (199 / 2), stroke = 1,
            distance_to_closest_real = 1 / 2, closest_X_real_row_index = 0\<rparr>"
    using demo_script by simp
  from script_model_synth_scaler[OF r] obtain sc where
    sc: "StandardScaler_fit demo_cols (map features (final_synth_df res)) = Inr sc"
        "StandardScaler_transform sc demo_cols (map features (final_synth_df res))
           = Inr (model_synth_X res)" by blast
  from sc(1) have "sc_mean sc = [40, 199 / 2, 25, 0, 0, 1, 0, 1, 1, 1, 1]"
    by (auto simp: f StandardScaler_fit_def np_mean_def patient_at demo_cols_def sum_list_replicate)
  then show ?thesis using r sc by blast
qed

text \<open>
  In the example run the scaler fitted on the real training features, the one that
  standardises the training set of the first classifier, maps the synthetic features to
  rows other than those the second classifier is fitted on.
\<close>

theorem script_model_synth_scaler_counterexample:
  "\<exists>res X_train X_test y_train y_test sc X_std.
     script demo_rnd demo_cols demo_X demo_y = Inr res \<and>
     train_test_split (split_rs demo_rnd) demo_X demo_y = Inr (X_train, X_test, y_train, y_test) \<and>
     StandardScaler_fit demo_cols X_train = Inr sc \<and>
     StandardScaler_transform sc demo_cols X_train = Inr (model_X res) \<and>
     StandardScaler_transform sc demo_cols (map features (final_synth_df res)) = Inr X_std \<and>
     X_std \<noteq> model_synth_X res \<and>
     hd X_std = [0, - (1 / 2), 0, 0, 0, 0, 0, 0, 0, 0, 0] \<and>
     hd (model_synth_X res) = [0, 0, 0, 0, 0, 0, 0, 0, 0, 0, 0]"
proof -
  let ?X_train = "[patient 99, patient 99, patient 99, patient 101, patient 101,
        patient 101, patient 99, patient 99, patient 99, patient 101,
        patient 101, patient 101]"
  let ?sc = "\<lparr>sc_mean = [40, 100, 25, 0, 0, 1, 0, 1, 1, 1, 1],
             sc_scale = [1, 1, 1, 1, 1, 1, 1, 1, 1, 1, 1]\<rparr>"
  let ?z = "[0, - (1 / 2), 0, 0, 0, 0, 0, 0, 0, 0, 0 :: real]"
  have fit: "StandardScaler_fit demo_cols ?X_train = Inr ?sc"
    by (simp add: StandardScaler_fit_def np_mean_def np_var_def handle_zeros_in_scale_def
        patient_at demo_cols_def)
  have tr: "StandardScaler_transform ?sc demo_cols ?X_train = Inr [[0, - 1, 0, 0, 0, 0, 0, 0, 0, 0, 0],
          [0, - 1, 0, 0, 0, 0, 0, 0, 0, 0, 0],
          [0, - 1, 0, 0, 0, 0, 0, 0, 0, 0, 0],
          [0, 1, 0, 0, 0, 0, 0, 0, 0, 0, 0],
          [0, 1, 0, 0, 0, 0, 0, 0, 0, 0, 0],
          [0, 1, 0, 0, 0, 0, 0, 0, 0, 0, 0],
          [0, - 1, 0, 0, 0, 0, 0, 0, 0, 0, 0],
          [0, - 1, 0, 0, 0, 0, 0, 0, 0, 0, 0],
          [0, - 1, 0, 0, 0, 0, 0, 0, 0, 0, 0],
          [0, 1, 0, 0, 0, 0, 0, 0, 0, 0, 0],
          [0, 1, 0, 0, 0, 0, 0, 0, 0, 0, 0],
          [0, 1, 0, 0, 0, 0, 0, 0, 0, 0, 0]]"
    by (simp add: StandardScaler_transform_def patient_at demo_cols_def)
  have ts: "StandardScaler_transform ?sc demo_cols
      (map features (replicate 8 \<lparr>features = patient (199 / 2), stroke = 0,
            distance_to_closest_real = 1 / 2, closest_X_real_row_index = 0\<rparr> @
          replicate 7 \<lparr>features = patient (199 / 2), stroke = 1,
            distance_to_closest_real = 1 / 2, closest_X_real_row_index = 0\<rparr>))
      = Inr (replicate 8 ?z @ replicate 7 ?z)"
    by (simp add: StandardScaler_transform_def patient_at demo_cols_def)
  have ne: "replicate 8 ?z @ replicate 7 ?z \<noteq>
      replicate 8 [0, 0, 0, 0, 0, 0, 0, 0, 0, 0, 0] @ replicate 7 [0, 0, 0, 0, 0, 0, 0, 0, 0, 0, 0]"
    and hd1: "hd (replicate 8 ?z @ replicate 7 ?z) = ?z"
    and hd2: "hd (replicate 8 [0, 0, 0, 0, 0, 0, 0, 0, 0, 0, 0::real] @
                  replicate 7 [0, 0, 0, 0, 0, 0, 0, 0, 0, 0, 0]) = [0, 0, 0, 0, 0, 0, 0, 0, 0, 0, 0]"
    by (simp_all add: eval_nat_numeral)
  obtain res where r: "script demo_rnd demo_cols demo_X demo_y = Inr res"
    and mx: "model_X res = [[0, - 1, 0, 0, 0, 0, 0, 0, 0, 0, 0],
          [0, - 1, 0, 0, 0, 0, 0, 0, 0, 0, 0],
          [0, - 1, 0, 0, 0, 0, 0, 0, 0, 0, 0],
          [0, 1, 0, 0, 0, 0, 0, 0, 0, 0, 0],
          [0, 1, 0, 0, 0, 0, 0, 0, 0, 0, 0],
          [0, 1, 0, 0, 0, 0, 0, 0, 0, 0, 0],
          [0, - 1, 0, 0, 0, 0, 0, 0, 0, 0, 0],
          [0, - 1, 0, 0, 0, 0, 0, 0, 0, 0, 0],
          [0, - 1, 0, 0, 0, 0, 0, 0, 0, 0, 0],
          [0, 1, 0, 0, 0, 0, 0, 0, 0, 0, 0],
          [0, 1, 0, 0, 0, 0, 0, 0, 0, 0, 0],
          [0, 1, 0, 0, 0, 0, 0, 0, 0, 0, 0]]"
    and ms: "model_synth_X res = replicate 8 [0, 0, 0, 0, 0, 0, 0, 0, 0, 0, 0] @
                        replicate 7 [0, 0, 0, 0, 0, 0, 0, 0, 0, 0, 0]"
    and f: "final_synth_df res = replicate 8 \<lparr>features = patient (199 / 2), stroke = 0,
            distance_to_closest_real = 1 / 2, closest_X_real_row_index = 0\<rparr> @
          replicate 7 \<lparr>features = patient (199 / 2), stroke = 1,
            distance_to_closest_real = 1 / 2, closest_X_real_row_index = 0\<rparr>"
    using demo_script by simp
  have sp: "train_test_split (split_rs demo_rnd) demo_X demo_y =
      Inr (?X_train, [patient 99, patient 101, patient 99],
           [0, 0, 0, 0, 0, 0, 1, 1, 1, 1, 1, 1], [0, 0, 1])"
    by (simp add: demo_rnd_def demo_split)
  have tr': "StandardScaler_transform ?sc demo_cols ?X_train = Inr (model_X res)"
    unfolding mx by (rule tr)
  have ts': "StandardScaler_transform ?sc demo_cols (map features (final_synth_df res))
      = Inr (replicate 8 ?z @ replicate 7 ?z)"
    unfolding f by (rule ts)
  have ne': "replicate 8 ?z @ replicate 7 ?z \<noteq> model_synth_X res"
    unfolding ms by (rule ne)
  have hd2': "hd (model_synth_X res) = [0, 0, 0, 0, 0, 0, 0, 0, 0, 0, 0]"
    unfolding ms by (rule hd2)
  from r sp fit tr' ts' ne' hd1 hd2' show ?thesis by blast
qed

section \<open>Removal and trimming with respect to the stored distances\<close>

lemma remove_identical_set:
  "set (remove_identical synth_df) = {r \<in> set synth_df. 1 / 1000 \<le> distance_to_closest_real r}"
  by (auto simp: remove_identical_def)

lemma number_to_keep_le: "number_to_keep n \<le> n"
proof -
  have "real n * (1 - proportion_to_remove) \<le> real n"
    by (simp add: proportion_to_remove_def)
  then have "\<lfloor>real n * (1 - proportion_to_remove)\<rfloor> \<le> int n" by linarith
  then show ?thesis by (simp add: number_to_keep_def)
qed

lemma number_to_keep_eq: "number_to_keep n = (9 * n) div 10"
proof -
  have "real n * (1 - proportion_to_remove) = real (9 * n) / real 10"
    by (simp add: proportion_to_remove_def)
  then have "\<lfloor>real n * (1 - proportion_to_remove)\<rfloor> = int ((9 * n) div 10)"
    by (simp only: floor_divide_of_nat_eq)
  then show ?thesis by (simp add: number_to_keep_def)
qed

lemma limit_data_length: "length (limit_data synth_df) = number_to_keep (length synth_df)"
  using number_to_keep_le[of "length synth_df"]
  by (simp add: limit_data_def sort_by_distance_def Let_def)

lemma limit_data_1000:
  assumes "length synth_df = 1000"
  shows "length (limit_data synth_df) = 900"
  using assms by (simp add: limit_data_length number_to_keep_eq)

lemma limit_data_largest_stored:
  assumes "a \<in> set (limit_data synth_df)"
    "b \<in> set (drop (number_to_keep (length synth_df)) (sort_by_distance synth_df))"
  shows "distance_to_closest_real b \<le> distance_to_closest_real a"
proof -
  let ?s = "sort_by_distance synth_df"
  let ?k = "number_to_keep (length synth_df)"
  have "sorted (map (\<lambda>r. - distance_to_closest_real r) ?s)"
    by (simp add: sort_by_distance_def)
  then have "sorted (map (\<lambda>r. - distance_to_closest_real r) (take ?k ?s @ drop ?k ?s))" by simp
  then have "\<forall>x\<in>set (take ?k ?s). \<forall>y\<in>set (drop ?k ?s).
      - distance_to_closest_real x \<le> - distance_to_closest_real y"
    unfolding map_append sorted_append by auto
  moreover have "length ?s = length synth_df" by (simp add: sort_by_distance_def)
  ultimately show ?thesis using assms by (auto simp: limit_data_def Let_def)
qed

lemma stored_distances_by_position:
  assumes "distances_to_real cols X_train X_test X_synthetic synth_df = Inr stored"
  shows "length stored = length synth_df \<and> length X_synthetic = length synth_df \<and>
         map features stored = map fst synth_df \<and> map stroke stored = map snd synth_df"
proof -
  from assms obtain d where
    d: "store_distances synth_df d = Inr stored" and
    l: "length d = length X_synthetic"
    by (auto simp: distances_to_real_def standardise_data_def StandardScaler_transform_def
        NearestNeighbors_kneighbors_def split: sum.splits if_splits)
  from d have ld: "length d = length synth_df" and
    st: "stored = map (\<lambda>((r, l), (d, i)).
                  \<lparr>features = r, stroke = l, distance_to_closest_real = d,
                   closest_X_real_row_index = i\<rparr>) (zip synth_df d)"
    by (auto simp: store_distances_def split: if_splits)
  have "map features stored = map fst synth_df \<and> map stroke stored = map snd synth_df"
    unfolding st using ld
    by (induction synth_df d rule: list_induct2') auto
  then show ?thesis using l ld st by simp
qed

section \<open>A run in which the stored distances belong to other records\<close>

lemma upt_12: "[0..<12] = [0, 1, 2, 3, 4, 5, 6, 7, 8, 9, 10, 11]"
  by (simp add: upt_conv_Cons)

lemma replicate_10_12:
  "replicate 10 x = [x, x, x, x, x, x, x, x, x, x]"
  "replicate 12 x = [x, x, x, x, x, x, x, x, x, x, x, x]"
  by (simp_all add: eval_nat_numeral)

lemma bug_smote: "make_synthetic_data_smote draws_with_copy demo_cols
   [patient 99, patient 99, patient 99, patient 101, patient 101,
      patient 101, patient 99, patient 99, patient 99, patient 101,
      patient 101, patient 101] [0, 0, 0, 0, 0, 0, 1, 1, 1, 1, 1, 1] [12, 12] =
   Inr (patient 99 # patient 100 # replicate 10 (patient (199 / 2)) @ replicate 12 (patient (199 / 2)),
        replicate 12 0 @ replicate 12 1)"
  by (simp add: make_synthetic_data_smote_def SMOTE_fit_resample_def check_sampling_strategy_two
      patient_values k_neighbors_def Let_def kneighbors_def euclidean_def make_samples_def
      patient_def[symmetric] draws_with_copy_def upt_12 replicate_10_12)

lemma patient_eq_iff: "patient a = patient b \<longleftrightarrow> a = b"
proof
  assume "patient a = patient b"
  then have "patient a ''avg_glucose_level'' = patient b ''avg_glucose_level''" by simp
  then show "a = b" by (simp add: patient_at)
qed simp

lemma pick_shuffle_swap: "pick_shuffle [Suc 0] (x # y # xs) = y # x # xs"
  by (simp add: pick_shuffle_Cons pick_shuffle_id)

lemma replicate_12_split: "replicate 12 x = x # x # replicate 10 x"
  by (simp add: eval_nat_numeral)

lemma bug_build:
  "build_synth_df [1] demo_cols
     (patient 99 # patient 100 # replicate 10 (patient (199 / 2)) @ replicate 12 (patient (199 / 2)))
     (replicate 12 0 @ replicate 12 1) =
   Inr ((patient 100, 0) # (patient 99, 0) # replicate 10 (patient (199 / 2), 0) @
        replicate 12 (patient (199 / 2), 1))"
proof -
  let ?Xs = "patient 99 # patient 100 # replicate 10 (patient (199 / 2)) @ replicate 12 (patient (199 / 2))"
  have "repair demo_cols ?Xs = Inr ?Xs"
    using patient_repaired[of "199 / 2"] patient_repaired[of 99] patient_repaired[of 100]
    by (intro repair_fix demo_cols_ok) auto
  moreover have "replicate 12 (0::int) @ replicate 12 1 = 0 # 0 # replicate 10 0 @ replicate 12 1"
    by (simp add: replicate_12_split[of "0::int"])
  ultimately show ?thesis by (simp add: build_synth_df_def pick_shuffle_swap)
qed

lemma bug_std2: "standardise_data demo_cols
   [patient 99, patient 99, patient 99, patient 101, patient 101,
      patient 101, patient 99, patient 99, patient 99, patient 101,
      patient 101, patient 101]
   (patient 99 # patient 100 # replicate 10 (patient (199 / 2)) @ replicate 12 (patient (199 / 2))) =
    Inr ([[0, - 1, 0, 0, 0, 0, 0, 0, 0, 0, 0],
          [0, - 1, 0, 0, 0, 0, 0, 0, 0, 0, 0],
          [0, - 1, 0, 0, 0, 0, 0, 0, 0, 0, 0],
          [0, 1, 0, 0, 0, 0, 0, 0, 0, 0, 0],
          [0, 1, 0, 0, 0, 0, 0, 0, 0, 0, 0],
          [0, 1, 0, 0, 0, 0, 0, 0, 0, 0, 0],
          [0, - 1, 0, 0, 0, 0, 0, 0, 0, 0, 0],
          [0, - 1, 0, 0, 0, 0, 0, 0, 0, 0, 0],
          [0, - 1, 0, 0, 0, 0, 0, 0, 0, 0, 0],
          [0, 1, 0, 0, 0, 0, 0, 0, 0, 0, 0],
          [0, 1, 0, 0, 0, 0, 0, 0, 0, 0, 0],
          [0, 1, 0, 0, 0, 0, 0, 0, 0, 0, 0]],
         [0, - 1, 0, 0, 0, 0, 0, 0, 0, 0, 0] # [0, 0, 0, 0, 0, 0, 0, 0, 0, 0, 0] #
         replicate 10 [0, - (1 / 2), 0, 0, 0, 0, 0, 0, 0, 0, 0] @
         replicate 12 [0, - (1 / 2), 0, 0, 0, 0, 0, 0, 0, 0, 0])"
  by (simp add: standardise_data_def StandardScaler_fit_def StandardScaler_transform_def
      np_mean_def np_var_def handle_zeros_in_scale_def patient_at demo_cols_def)

lemma bug_closest:
  "closest [[0, - 1, 0, 0, 0, 0, 0, 0, 0, 0, 0],
          [0, - 1, 0, 0, 0, 0, 0, 0, 0, 0, 0],
          [0, - 1, 0, 0, 0, 0, 0, 0, 0, 0, 0],
          [0, 1, 0, 0, 0, 0, 0, 0, 0, 0, 0],
          [0, 1, 0, 0, 0, 0, 0, 0, 0, 0, 0],
          [0, 1, 0, 0, 0, 0, 0, 0, 0, 0, 0],
          [0, - 1, 0, 0, 0, 0, 0, 0, 0, 0, 0],
          [0, - 1, 0, 0, 0, 0, 0, 0, 0, 0, 0],
          [0, - 1, 0, 0, 0, 0, 0, 0, 0, 0, 0],
          [0, 1, 0, 0, 0, 0, 0, 0, 0, 0, 0],
          [0, 1, 0, 0, 0, 0, 0, 0, 0, 0, 0],
          [0, 1, 0, 0, 0, 0, 0, 0, 0, 0, 0],
          [0, - 1, 0, 0, 0, 0, 0, 0, 0, 0, 0],
          [0, 1, 0, 0, 0, 0, 0, 0, 0, 0, 0],
          [0, - 1, 0, 0, 0, 0, 0, 0, 0, 0, 0]] [0, - 1, 0, 0, 0, 0, 0, 0, 0, 0, 0] = (0, 0)"
  "closest [[0, - 1, 0, 0, 0, 0, 0, 0, 0, 0, 0],
          [0, - 1, 0, 0, 0, 0, 0, 0, 0, 0, 0],
          [0, - 1, 0, 0, 0, 0, 0, 0, 0, 0, 0],
          [0, 1, 0, 0, 0, 0, 0, 0, 0, 0, 0],
          [0, 1, 0, 0, 0, 0, 0, 0, 0, 0, 0],
          [0, 1, 0, 0, 0, 0, 0, 0, 0, 0, 0],
          [0, - 1, 0, 0, 0, 0, 0, 0, 0, 0, 0],
          [0, - 1, 0, 0, 0, 0, 0, 0, 0, 0, 0],
          [0, - 1, 0, 0, 0, 0, 0, 0, 0, 0, 0],
          [0, 1, 0, 0, 0, 0, 0, 0, 0, 0, 0],
          [0, 1, 0, 0, 0, 0, 0, 0, 0, 0, 0],
          [0, 1, 0, 0, 0, 0, 0, 0, 0, 0, 0],
          [0, - 1, 0, 0, 0, 0, 0, 0, 0, 0, 0],
          [0, 1, 0, 0, 0, 0, 0, 0, 0, 0, 0],
          [0, - 1, 0, 0, 0, 0, 0, 0, 0, 0, 0]] [0, 0, 0, 0, 0, 0, 0, 0, 0, 0, 0] = (1, 0)"
  by (simp_all add: closest_def euclidean_def Let_def)

lemma bug_dist: "distances_to_real demo_cols
   [patient 99, patient 99, patient 99, patient 101, patient 101,
      patient 101, patient 99, patient 99, patient 99, patient 101,
      patient 101, patient 101] [patient 99, patient 101, patient 99]
   (patient 99 # patient 100 # replicate 10 (patient (199 / 2)) @ replicate 12 (patient (199 / 2)))
   ((patient 100, 0) # (patient 99, 0) # replicate 10 (patient (199 / 2), 0) @
        replicate 12 (patient (199 / 2), 1)) =
   Inr (\<lparr>features = patient 100, stroke = 0,
            distance_to_closest_real = 0, closest_X_real_row_index = 0\<rparr> #
        \<lparr>features = patient 99, stroke = 0,
            distance_to_closest_real = 1, closest_X_real_row_index = 0\<rparr> #
        replicate 10 \<lparr>features = patient (199 / 2), stroke = 0,
            distance_to_closest_real = 1 / 2, closest_X_real_row_index = 0\<rparr> @
        replicate 12 \<lparr>features = patient (199 / 2), stroke = 1,
            distance_to_closest_real = 1 / 2, closest_X_real_row_index = 0\<rparr>)"
  by (simp add: distances_to_real_def demo_std1 bug_std2 NearestNeighbors_kneighbors_def
      demo_closest bug_closest store_distances_def)

lemma std_single: "standardise_data demo_cols
   [patient 99, patient 99, patient 99, patient 101, patient 101,
      patient 101, patient 99, patient 99, patient 99, patient 101,
      patient 101, patient 101] [patient g] =
    Inr ([[0, - 1, 0, 0, 0, 0, 0, 0, 0, 0, 0],
          [0, - 1, 0, 0, 0, 0, 0, 0, 0, 0, 0],
          [0, - 1, 0, 0, 0, 0, 0, 0, 0, 0, 0],
          [0, 1, 0, 0, 0, 0, 0, 0, 0, 0, 0],
          [0, 1, 0, 0, 0, 0, 0, 0, 0, 0, 0],
          [0, 1, 0, 0, 0, 0, 0, 0, 0, 0, 0],
          [0, - 1, 0, 0, 0, 0, 0, 0, 0, 0, 0],
          [0, - 1, 0, 0, 0, 0, 0, 0, 0, 0, 0],
          [0, - 1, 0, 0, 0, 0, 0, 0, 0, 0, 0],
          [0, 1, 0, 0, 0, 0, 0, 0, 0, 0, 0],
          [0, 1, 0, 0, 0, 0, 0, 0, 0, 0, 0],
          [0, 1, 0, 0, 0, 0, 0, 0, 0, 0, 0]],
         [[0, g - 100, 0, 0, 0, 0, 0, 0, 0, 0, 0]])"
  by (simp add: standardise_data_def StandardScaler_fit_def StandardScaler_transform_def
      np_mean_def np_var_def handle_zeros_in_scale_def patient_at demo_cols_def)

lemma bug_nearest:
  "nearest_real_distance demo_cols
   [patient 99, patient 99, patient 99, patient 101, patient 101,
      patient 101, patient 99, patient 99, patient 99, patient 101,
      patient 101, patient 101] [patient 99, patient 101, patient 99] (patient 99) = Inr 0"
  "nearest_real_distance demo_cols
   [patient 99, patient 99, patient 99, patient 101, patient 101,
      patient 101, patient 99, patient 99, patient 99, patient 101,
      patient 101, patient 101] [patient 99, patient 101, patient 99] (patient 100) = Inr 1"
  "nearest_real_distance demo_cols
   [patient 99, patient 99, patient 99, patient 101, patient 101,
      patient 101, patient 99, patient 99, patient 99, patient 101,
      patient 101, patient 101] [patient 99, patient 101, patient 99] (patient (199 / 2)) = Inr (1 / 2)"
  by (simp_all add: nearest_real_distance_def distances_to_real_def demo_std1 std_single
      NearestNeighbors_kneighbors_def demo_closest bug_closest store_distances_def)

lemma bug_removed:
  "remove_identical
     (\<lparr>features = patient 100, stroke = 0,
            distance_to_closest_real = 0, closest_X_real_row_index = 0\<rparr> #
        \<lparr>features = patient 99, stroke = 0,
            distance_to_closest_real = 1, closest_X_real_row_index = 0\<rparr> #
        replicate 10 \<lparr>features = patient (199 / 2), stroke = 0,
            distance_to_closest_real = 1 / 2, closest_X_real_row_index = 0\<rparr> @
        replicate 12 \<lparr>features = patient (199 / 2), stroke = 1,
            distance_to_closest_real = 1 / 2, closest_X_real_row_index = 0\<rparr>) =
     \<lparr>features = patient 99, stroke = 0,
            distance_to_closest_real = 1, closest_X_real_row_index = 0\<rparr> #
        replicate 10 \<lparr>features = patient (199 / 2), stroke = 0,
            distance_to_closest_real = 1 / 2, closest_X_real_row_index = 0\<rparr> @
        replicate 12 \<lparr>features = patient (199 / 2), stroke = 1,
            distance_to_closest_real = 1 / 2, closest_X_real_row_index = 0\<rparr>"
  by (simp add: remove_identical_def)

lemma bug_limited:
  "limit_data
     (\<lparr>features = patient 99, stroke = 0,
            distance_to_closest_real = 1, closest_X_real_row_index = 0\<rparr> #
        replicate 10 \<lparr>features = patient (199 / 2), stroke = 0,
            distance_to_closest_real = 1 / 2, closest_X_real_row_index = 0\<rparr> @
        replicate 12 \<lparr>features = patient (199 / 2), stroke = 1,
            distance_to_closest_real = 1 / 2, closest_X_real_row_index = 0\<rparr>) =
     \<lparr>features = patient 99, stroke = 0,
            distance_to_closest_real = 1, closest_X_real_row_index = 0\<rparr> #
        replicate 10 \<lparr>features = patient (199 / 2), stroke = 0,
            distance_to_closest_real = 1 / 2, closest_X_real_row_index = 0\<rparr> @
        replicate 9 \<lparr>features = patient (199 / 2), stroke = 1,
            distance_to_closest_real = 1 / 2, closest_X_real_row_index = 0\<rparr>"
proof -
  let ?r99 = "\<lparr>features = patient 99, stroke = 0,
            distance_to_closest_real = 1, closest_X_real_row_index = 0\<rparr>"
  let ?a = "\<lparr>features = patient (199 / 2), stroke = 0,
            distance_to_closest_real = 1 / 2, closest_X_real_row_index = 0\<rparr>"
  let ?b = "\<lparr>features = patient (199 / 2), stroke = 1,
            distance_to_closest_real = 1 / 2, closest_X_real_row_index = 0\<rparr>"
  have "sorted (map (\<lambda>r. - distance_to_closest_real r) (?r99 # replicate 10 ?a @ replicate 12 ?b))"
    by (simp add: sorted_append)
  then have so: "sort_by_distance (?r99 # replicate 10 ?a @ replicate 12 ?b) =
      ?r99 # replicate 10 ?a @ replicate 12 ?b"
    unfolding sort_by_distance_def by (rule sort_key_id_if_sorted)
  have nk: "number_to_keep 23 = 20" by (simp add: number_to_keep_eq)
  show ?thesis by (simp add: limit_data_def so nk Let_def)
qed

text \<open>
  Claim C6 on the code.  Line 188 shuffles \<^verbatim>\<open>synth_df\<close>, line 191 standardises the
  unshuffled \<^verbatim>\<open>X_synthetic\<close>, and line 223 stores the distances by position, so the
  distance stored in a row is the distance of another record.  In this run the synthetic
  record \<open>patient 99\<close> is a copy of a real record (distance 0) and \<open>patient 100\<close> lies
  at distance 1 from the nearest real record; the shuffle exchanges them.  The removal of
  identical points keeps the copy and drops the record at distance 1, and the copy is
  still in the filtered pool after the trimming.
\<close>

theorem removal_keeps_copy_of_real_record:
  "\<exists>X_train X_test y_train y_test X_synthetic y_synthetic synth_df stored pool.
     train_test_split [] demo_X demo_y = Inr (X_train, X_test, y_train, y_test) \<and>
     make_synthetic_data_smote draws_with_copy demo_cols X_train y_train
       (required_smote_count y_train) = Inr (X_synthetic, y_synthetic) \<and>
     build_synth_df [1] demo_cols X_synthetic y_synthetic = Inr synth_df \<and>
     distances_to_real demo_cols X_train X_test X_synthetic synth_df = Inr stored \<and>
     patient 99 \<in> set X_train \<and>
     nearest_real_distance demo_cols X_train X_test (patient 99) = Inr 0 \<and>
     patient 99 \<in> features ` set (remove_identical stored) \<and>
     patient 100 \<in> set X_synthetic \<and>
     nearest_real_distance demo_cols X_train X_test (patient 100) = Inr 1 \<and>
     patient 100 \<notin> features ` set (remove_identical stored) \<and>
     filtered_pool [1] [] demo_cols X_train X_test X_synthetic y_synthetic = Inr pool \<and>
     patient 99 \<in> features ` set pool"
proof -
  let ?X_train = "[patient 99, patient 99, patient 99, patient 101, patient 101,
        patient 101, patient 99, patient 99, patient 99, patient 101,
        patient 101, patient 101]"
  let ?X_test = "[patient 99, patient 101, patient 99]"
  let ?y_train = "[0, 0, 0, 0, 0, 0, 1, 1, 1, 1, 1, 1 :: int]"
  let ?Xs = "patient 99 # patient 100 # replicate 10 (patient (199 / 2)) @ replicate 12 (patient (199 / 2))"
  let ?ys = "replicate 12 (0::int) @ replicate 12 1"
  let ?df = "(patient 100, 0::int) # (patient 99, 0) # replicate 10 (patient (199 / 2), 0) @
        replicate 12 (patient (199 / 2), 1)"
  let ?r99 = "\<lparr>features = patient 99, stroke = 0,
            distance_to_closest_real = 1, closest_X_real_row_index = 0\<rparr>"
  let ?a = "\<lparr>features = patient (199 / 2), stroke = 0,
            distance_to_closest_real = 1 / 2, closest_X_real_row_index = 0\<rparr>"
  let ?b = "\<lparr>features = patient (199 / 2), stroke = 1,
            distance_to_closest_real = 1 / 2, closest_X_real_row_index = 0\<rparr>"
  let ?stored = "\<lparr>features = patient 100, stroke = 0,
            distance_to_closest_real = 0, closest_X_real_row_index = 0\<rparr> #
        ?r99 # replicate 10 ?a @ replicate 12 ?b"
  let ?pool = "?r99 # replicate 10 ?a @ replicate 9 ?b"
  have 1: "train_test_split [] demo_X demo_y = Inr (?X_train, ?X_test, ?y_train, [0, 0, 1])"
    by (rule demo_split)
  have 2: "make_synthetic_data_smote draws_with_copy demo_cols ?X_train ?y_train
       (required_smote_count ?y_train) = Inr (?Xs, ?ys)"
    unfolding demo_req by (rule bug_smote)
  have 3: "build_synth_df [1] demo_cols ?Xs ?ys = Inr ?df" by (rule bug_build)
  have 4: "distances_to_real demo_cols ?X_train ?X_test ?Xs ?df = Inr ?stored" by (rule bug_dist)
  have 5: "patient 99 \<in> set ?X_train" by simp
  have 6: "nearest_real_distance demo_cols ?X_train ?X_test (patient 99) = Inr 0"
    by (rule bug_nearest)
  have 7: "patient 99 \<in> features ` set (remove_identical ?stored)"
    unfolding bug_removed by (simp add: image_iff)
  have 8: "patient 100 \<in> set ?Xs" by simp
  have 9: "nearest_real_distance demo_cols ?X_train ?X_test (patient 100) = Inr 1"
    by (rule bug_nearest)
  have 10: "patient 100 \<notin> features ` set (remove_identical ?stored)"
    unfolding bug_removed by (auto simp: patient_eq_iff)
  have 11: "filtered_pool [1] [] demo_cols ?X_train ?X_test ?Xs ?ys = Inr ?pool"
    by (simp add: filtered_pool_def 3 4 bug_removed bug_limited trim_and_shuffle_def pick_shuffle_id
        del: One_nat_def)
  have 12: "patient 99 \<in> features ` set ?pool" by (simp add: image_iff)
  from 1 2 3 4 5 6 7 8 9 10 11 12 show ?thesis by blast
qed

text \<open>
  Claim C7 on the code, in the same run.  Of the 23 rows left after the removal the
  trimming keeps 20: it keeps the copy of a real record (distance 0, stored distance 1)
  and discards three records that lie at distance 1/2 from the nearest real record.
\<close>

theorem trimming_discards_farther_records:
  "\<exists>X_train X_test y_train y_test X_synthetic y_synthetic synth_df stored.
     train_test_split [] demo_X demo_y = Inr (X_train, X_test, y_train, y_test) \<and>
     make_synthetic_data_smote draws_with_copy demo_cols X_train y_train
       (required_smote_count y_train) = Inr (X_synthetic, y_synthetic) \<and>
     build_synth_df [1] demo_cols X_synthetic y_synthetic = Inr synth_df \<and>
     distances_to_real demo_cols X_train X_test X_synthetic synth_df = Inr stored \<and>
     length (remove_identical stored) = 23 \<and>
     length (limit_data (remove_identical stored)) = 20 \<and>
     nearest_real_distance demo_cols X_train X_test (patient 99) = Inr 0 \<and>
     length (filter (\<lambda>r. features r = patient 99) (remove_identical stored)) = 1 \<and>
     length (filter (\<lambda>r. features r = patient 99) (limit_data (remove_identical stored))) = 1 \<and>
     nearest_real_distance demo_cols X_train X_test (patient (199 / 2)) = Inr (1 / 2) \<and>
     length (filter (\<lambda>r. features r = patient (199 / 2)) (remove_identical stored)) = 22 \<and>
     length (filter (\<lambda>r. features r = patient (199 / 2)) (limit_data (remove_identical stored))) = 19"
proof -
  let ?X_train = "[patient 99, patient 99, patient 99, patient 101, patient 101,
        patient 101, patient 99, patient 99, patient 99, patient 101,
        patient 101, patient 101]"
  let ?X_test = "[patient 99, patient 101, patient 99]"
  let ?y_train = "[0, 0, 0, 0, 0, 0, 1, 1, 1, 1, 1, 1 :: int]"
  let ?Xs = "patient 99 # patient 100 # replicate 10 (patient (199 / 2)) @ replicate 12 (patient (199 / 2))"
  let ?ys = "replicate 12 (0::int) @ replicate 12 1"
  let ?df = "(patient 100, 0::int) # (patient 99, 0) # replicate 10 (patient (199 / 2), 0) @
        replicate 12 (patient (199 / 2), 1)"
  let ?r99 = "\<lparr>features = patient 99, stroke = 0,
            distance_to_closest_real = 1, closest_X_real_row_index = 0\<rparr>"
  let ?a = "\<lparr>features = patient (199 / 2), stroke = 0,
            distance_to_closest_real = 1 / 2, closest_X_real_row_index = 0\<rparr>"
  let ?b = "\<lparr>features = patient (199 / 2), stroke = 1,
            distance_to_closest_real = 1 / 2, closest_X_real_row_index = 0\<rparr>"
  let ?stored = "\<lparr>features = patient 100, stroke = 0,
            distance_to_closest_real = 0, closest_X_real_row_index = 0\<rparr> #
        ?r99 # replicate 10 ?a @ replicate 12 ?b"
  have 1: "train_test_split [] demo_X demo_y = Inr (?X_train, ?X_test, ?y_train, [0, 0, 1])"
    by (rule demo_split)
  have 2: "make_synthetic_data_smote draws_with_copy demo_cols ?X_train ?y_train
       (required_smote_count ?y_train) = Inr (?Xs, ?ys)"
    unfolding demo_req by (rule bug_smote)
  have 3: "build_synth_df [1] demo_cols ?Xs ?ys = Inr ?df" by (rule bug_build)
  have 4: "distances_to_real demo_cols ?X_train ?X_test ?Xs ?df = Inr ?stored" by (rule bug_dist)
  have 5: "length (remove_identical ?stored) = 23" unfolding bug_removed by simp
  have 6: "length (limit_data (remove_identical ?stored)) = 20"
    unfolding bug_removed bug_limited by simp
  have 7: "nearest_real_distance demo_cols ?X_train ?X_test (patient 99) = Inr 0"
    by (rule bug_nearest)
  have 8: "length (filter (\<lambda>r. features r = patient 99) (remove_identical ?stored)) = 1"
    unfolding bug_removed by (simp add: patient_eq_iff)
  have 9: "length (filter (\<lambda>r. features r = patient 99) (limit_data (remove_identical ?stored))) = 1"
    unfolding bug_removed bug_limited by (simp add: patient_eq_iff)
  have 10: "nearest_real_distance demo_cols ?X_train ?X_test (patient (199 / 2)) = Inr (1 / 2)"
    by (rule bug_nearest)
  have 11: "length (filter (\<lambda>r. features r = patient (199 / 2)) (remove_identical ?stored)) = 22"
    unfolding bug_removed by (simp add: patient_eq_iff)
  have 12: "length (filter (\<lambda>r. features r = patient (199 / 2))
      (limit_data (remove_identical ?stored))) = 19"
    unfolding bug_removed bug_limited by (simp add: patient_eq_iff)
  from 1 2 3 4 5 6 7 8 9 10 11 12 show ?thesis by blast
qed

end
